theory Spec2Isabelle
  imports Main
begin

section \<open>Data model\<close>

text \<open>
  A JavaScript exception or promise rejection. The worker never inspects the
  error it catches (it only logs it), so an error is its message.
\<close>

datatype error = Error string

text \<open>
  A Notification is a row object: a map from column names to values. All the
  columns the worker touches (\<open>id\<close>, \<open>subscription_id\<close>, \<open>transfer_id\<close>) hold
  strings. A missing key reads as \<open>undefined\<close>, which is \<open>None\<close>.
\<close>

type_synonym notification = "string \<rightharpoonup> string"

text \<open>
  \<open>truthy\<close> is the JavaScript test \<open>if (v)\<close> on a value that is a string or
  \<open>undefined\<close>; \<open>str\<close> is what string concatenation and property-key lookup make
  of such a value.
\<close>

definition truthy :: "string option \<Rightarrow> bool" where
  "truthy v = (case v of None \<Rightarrow> False | Some s \<Rightarrow> s \<noteq> [])"

definition str :: "string option \<Rightarrow> string" where
  "str v = (case v of None \<Rightarrow> ''undefined'' | Some s \<Rightarrow> s)"

text \<open>
  The options object of \<open>findOrCreate\<close>. Its \<open>transaction\<close> field only scopes the
  database calls and is not modelled; \<open>defaults\<close> is \<open>None\<close> when the caller
  leaves it out.
\<close>

record options =
  defaults :: "notification option"

record fund =
  account :: string

record Transfer =
  id_t :: string
  state :: string
  debits :: "fund list"
  credits :: "fund list"

record Subscription =
  id_s :: string
  owner :: string
  target :: string

section \<open>The Notification Store\<close>

text \<open>
  Modelled from the spec: the module \<open>models/db/notifications\<close>
  (\<open>getMatchingNotification\<close>, \<open>getNotification\<close>, \<open>insertNotification\<close>,
  \<open>deleteNotification\<close>) is not part of the sources at hand. The spec describes the
  store as a durable collection of Notification records that exposes
  get/insert/find/delete, in which \<open>id\<close> is unique. The store is the list of its
  rows in insertion order; a lookup returns the first matching row or nothing;
  an insert appends the row and is rejected when the row has no \<open>id\<close> or its
  \<open>id\<close> is already taken; a delete removes the rows with the given \<open>id\<close>.
\<close>

type_synonym store = "notification list"

definition getMatchingNotification :: "string \<Rightarrow> string \<Rightarrow> store \<Rightarrow> notification option" where
  "getMatchingNotification subscriptionID transferID st =
     find (\<lambda>row. row ''subscription_id'' = Some subscriptionID
                \<and> row ''transfer_id'' = Some transferID) st"

definition getNotification :: "string \<Rightarrow> store \<Rightarrow> notification option" where
  "getNotification notificationId st = find (\<lambda>row. row ''id'' = Some notificationId) st"

definition insertNotification :: "notification \<Rightarrow> store \<Rightarrow> error + store" where
  "insertNotification vals st =
     (case vals ''id'' of
        None \<Rightarrow> Inl (Error ''notification without id'')
      | Some i \<Rightarrow>
          (case getNotification i st of
             Some existing \<Rightarrow> Inl (Error ''duplicate notification id'')
           | None \<Rightarrow> Inr (st @ [vals])))"

definition deleteNotification :: "string \<Rightarrow> store \<Rightarrow> store" where
  "deleteNotification notificationId st = filter (\<lambda>row. row ''id'' \<noteq> Some notificationId) st"

text \<open>The number of stored Notifications of one (subscription, transfer) pair.\<close>

definition stored_for :: "string \<Rightarrow> string \<Rightarrow> store \<Rightarrow> nat" where
  "stored_for subscriptionID transferID st =
     length (filter (\<lambda>row. row ''subscription_id'' = Some subscriptionID
                          \<and> row ''transfer_id'' = Some transferID) st)"

section \<open>findOrCreate\<close>

text \<open>
  \<open>findOrCreate (subscriptionID, transferID, options)\<close>. The argument \<open>uuid\<close> is the
  value \<open>uuid4()\<close> returns if it is called. The result is the rejection of the
  insert, or the returned record (whatever \<open>getNotification\<close> yields, possibly
  \<open>undefined\<close>) with the store as the call leaves it.
\<close>

definition findOrCreate ::
  "string \<Rightarrow> string \<Rightarrow> options \<Rightarrow> string \<Rightarrow> store \<Rightarrow> error + (notification option \<times> store)" where
  "findOrCreate subscriptionID transferID opts uuid st =
     (case getMatchingNotification subscriptionID transferID st of
        Some result \<Rightarrow> Inr (Some result, st)
      | None \<Rightarrow>
          (let assigned = (case defaults opts of Some d \<Rightarrow> d | None \<Rightarrow> Map.empty)
                 ++ [''subscription_id'' \<mapsto> subscriptionID, ''transfer_id'' \<mapsto> transferID];
               vals = (if \<not> truthy (assigned ''id'') then assigned(''id'' \<mapsto> uuid) else assigned)
           in (case insertNotification vals st of
                 Inl err \<Rightarrow> Inl err
               | Inr st' \<Rightarrow> Inr (getNotification (str (vals ''id'')) st', st'))))"

text \<open>The values object that \<open>findOrCreate\<close> inserts when it finds no record.\<close>

definition newValues :: "string \<Rightarrow> string \<Rightarrow> options \<Rightarrow> string \<Rightarrow> notification" where
  "newValues subscriptionID transferID opts uuid =
     (let assigned = (case defaults opts of Some d \<Rightarrow> d | None \<Rightarrow> Map.empty)
                 ++ [''subscription_id'' \<mapsto> subscriptionID, ''transfer_id'' \<mapsto> transferID]
      in (if \<not> truthy (assigned ''id'') then assigned(''id'' \<mapsto> uuid) else assigned))"

section \<open>Payloads, collaborators and the worker's state\<close>

text \<open>
  The body of a local event is \<open>{resource, related_resources?}\<close>; the webhook body
  adds \<open>id\<close>, \<open>subscription\<close> (the fields \<open>id_b\<close> and \<open>subscription_b\<close>), \<open>event\<close>
  and, once signed, \<open>signature\<close>. A key that is absent is \<open>None\<close>. The external
  representations of a transfer (\<open>'xt\<close>) and of a fulfillment (\<open>'xf\<close>), and the
  internal fulfillment (\<open>'f\<close>), are opaque.
\<close>

record 'xf related =
  execution_condition_fulfillment :: "'xf option"
  cancellation_condition_fulfillment :: "'xf option"

record ('xt, 'xf) eventBody =
  resource :: 'xt
  related_resources :: "'xf related option"

record ('xt, 'xf) webhookBody = "('xt, 'xf) eventBody" +
  id_b :: string
  subscription_b :: string
  event :: string
  signature :: "string option"

text \<open>
  The helpers the worker is built on, taken as parameters: \<open>uri.make\<close>, the two
  converters, \<open>JSONSigning.sign\<close> (which returns the signed object) and the
  configured private key.
\<close>

record ('f, 'xt, 'xf) deps =
  uri_make :: "string \<Rightarrow> string \<Rightarrow> string"
  convertToExternalTransfer :: "Transfer \<Rightarrow> 'xt"
  convertToExternalFulfillment :: "'f \<Rightarrow> 'xf"
  sign :: "('xt, 'xf) webhookBody \<Rightarrow> string \<Rightarrow> string \<Rightarrow> ('xt, 'xf) webhookBody"
  privateKey :: string

text \<open>
  What one delivery attempt gets back from outside: the outcome of
  \<open>utils.sendNotification\<close> (a response with its status code, or an exception) and
  of \<open>scheduler.retryNotification\<close> (\<open>None\<close> when the scheduler accepts the
  notification, the rejection otherwise).
\<close>

datatype response = Responded int | Threw error

record attempt_io =
  sendNotification :: response
  retryNotification :: "error option"

text \<open>
  What one dispatch cycle gets back from outside: the fulfillment and
  subscription lookups, the value of the \<open>i\<close>-th \<open>uuid4()\<close>, the scheduler's
  enabled flag, and the outcomes of the \<open>i\<close>-th immediate attempt.
  \<open>getAffectedSubscriptions\<close> yields \<open>None\<close> for a falsy result and the array
  otherwise.
\<close>

record 'f env =
  getFulfillment :: "string \<Rightarrow> 'f option"
  getAffectedSubscriptions :: "string list \<Rightarrow> Subscription list option"
  uuid4 :: "nat \<Rightarrow> string"
  isEnabled :: bool
  attempt :: "nat \<Rightarrow> attempt_io"

text \<open>
  The effects of the worker on its collaborators, in the order they happen:
  \<open>self.emit\<close>, \<open>JSONSigning.sign\<close>, \<open>utils.sendNotification\<close>,
  \<open>scheduler.retryNotification\<close>, \<open>scheduler.scheduleProcessing\<close> and \<open>log.warn\<close>.
  Calls of \<open>log.debug\<close> are left out.
\<close>

datatype ('xt, 'xf) effect =
    Emitted string "('xt, 'xf) eventBody"
  | Signed "('xt, 'xf) webhookBody"
  | Sent string "('xt, 'xf) webhookBody"
  | RetryRequested notification
  | ProcessingScheduled
  | Warned error

record ('xt, 'xf) world =
  notifications :: store
  signatureCache :: "string \<rightharpoonup> string"
  trace :: "('xt, 'xf) effect list"

text \<open>
  Modelled from the spec: the state names of \<open>TransferStateDictionary\<close> and
  \<open>isTransferFinalized\<close> of \<open>transferUtils\<close> are not part of the sources at hand.
  The spec names the states \<open>executed\<close> and \<open>rejected\<close> and calls a transfer
  finalized when it is in one of these two terminal states.
\<close>

definition TRANSFER_STATE_EXECUTED :: string where
  "TRANSFER_STATE_EXECUTED = ''executed''"

definition TRANSFER_STATE_REJECTED :: string where
  "TRANSFER_STATE_REJECTED = ''rejected''"

definition isTransferFinalized :: "Transfer \<Rightarrow> bool" where
  "isTransferFinalized transfer =
     (state transfer = TRANSFER_STATE_EXECUTED \<or> state transfer = TRANSFER_STATE_REJECTED)"

section \<open>processNotificationWithInstances\<close>

text \<open>The body built for one subscriber, before it is signed.\<close>

definition notificationBody ::
  "('f, 'xt, 'xf) deps \<Rightarrow> notification \<Rightarrow> Transfer \<Rightarrow> Subscription \<Rightarrow> 'f option
     \<Rightarrow> ('xt, 'xf) webhookBody" where
  "notificationBody d notification transfer subscription fulfillment =
     (let subscriptionURI = uri_make d ''subscription'' (id_s subscription);
          body = \<lparr>resource = convertToExternalTransfer d transfer,
                  related_resources = None,
                  id_b = subscriptionURI @ ''/notifications/'' @ str (notification ''id''),
                  subscription_b = subscriptionURI,
                  event = ''transfer.update'',
                  signature = None\<rparr>
      in (case fulfillment of
            None \<Rightarrow> body
          | Some f \<Rightarrow>
              if state transfer = TRANSFER_STATE_EXECUTED then
                body\<lparr>related_resources := Some
                  \<lparr>execution_condition_fulfillment = Some (convertToExternalFulfillment d f),
                   cancellation_condition_fulfillment = None\<rparr>\<rparr>
              else if state transfer = TRANSFER_STATE_REJECTED then
                body\<lparr>related_resources := Some
                  \<lparr>execution_condition_fulfillment = None,
                   cancellation_condition_fulfillment = Some (convertToExternalFulfillment d f)\<rparr>\<rparr>
              else body))"

text \<open>
  The signing step: a truthy cache entry is attached to the body; otherwise the
  body is signed and the signature of the signed object is stored in the cache.
\<close>

definition signNotification ::
  "('f, 'xt, 'xf) deps \<Rightarrow> notification \<Rightarrow> ('xt, 'xf) webhookBody \<Rightarrow> ('xt, 'xf) world
     \<Rightarrow> ('xt, 'xf) webhookBody \<times> ('xt, 'xf) world" where
  "signNotification d notification body w =
     (let algorithm = ''CC'';
          key = str (notification ''id'')
      in if truthy (signatureCache w key) then
           (body\<lparr>signature := signatureCache w key\<rparr>, w)
         else
           (let signedNotification = sign d body algorithm (privateKey d)
            in (signedNotification,
                w\<lparr>signatureCache := (signatureCache w)(key := signature signedNotification),
                  trace := trace w @ [Signed body]\<rparr>)))"

text \<open>
  One delivery attempt. The result is the exception the attempt ends with, if
  any, and the state it leaves. The exception of the transport is caught and
  only logged; a rejection by \<open>scheduler.retryNotification\<close> is not caught. An
  undefined \<open>notification.id\<close> reads as the key \<open>undefined\<close> throughout.
\<close>

definition processNotificationWithInstances ::
  "('f, 'xt, 'xf) deps \<Rightarrow> attempt_io \<Rightarrow> notification \<Rightarrow> Transfer \<Rightarrow> Subscription \<Rightarrow> 'f option
     \<Rightarrow> ('xt, 'xf) world \<Rightarrow> error option \<times> ('xt, 'xf) world" where
  "processNotificationWithInstances d io notification transfer subscription fulfillment w =
     (let body = notificationBody d notification transfer subscription fulfillment;
          (signedNotification, w1) = signNotification d notification body w;
          w2 = w1\<lparr>trace := trace w1 @ [Sent (target subscription) signedNotification]\<rparr>;
          retry = (case sendNotification io of
                     Responded statusCode \<Rightarrow> \<not> statusCode < 400
                   | Threw err \<Rightarrow> True)
      in if retry then
           (retryNotification io, w2\<lparr>trace := trace w2 @ [RetryRequested notification]\<rparr>)
         else
           (None, w2\<lparr>signatureCache := (signatureCache w2)(str (notification ''id'') := None),
                      notifications := deleteNotification (str (notification ''id''))
                                         (notifications w2)\<rparr>))"

section \<open>queueNotifications\<close>

text \<open>The affected accounts: those of the debits, then of the credits, then \<open>*\<close>.\<close>

definition affectedAccounts :: "Transfer \<Rightarrow> string list" where
  "affectedAccounts transfer = map account (debits transfer @ credits transfer) @ [''*'']"

text \<open>The account URIs handed to the subscription lookup; \<open>*\<close> passes through.\<close>

definition affectedAccountUris :: "('f, 'xt, 'xf) deps \<Rightarrow> Transfer \<Rightarrow> string list" where
  "affectedAccountUris d transfer =
     map (\<lambda>acct. if acct = ''*'' then acct else uri_make d ''account'' acct)
       (affectedAccounts transfer)"

text \<open>The fulfillment is looked up only for a finalized transfer; otherwise it stays undefined.\<close>

definition fetchFulfillment :: "'f env \<Rightarrow> Transfer \<Rightarrow> 'f option" where
  "fetchFulfillment e transfer =
     (if isTransferFinalized transfer then getFulfillment e (id_t transfer) else None)"

text \<open>The body of the local events, given the fulfillment variable.\<close>

definition localBody ::
  "('f, 'xt, 'xf) deps \<Rightarrow> Transfer \<Rightarrow> 'f option \<Rightarrow> ('xt, 'xf) eventBody" where
  "localBody d transfer fulfillment =
     (let body = \<lparr>resource = convertToExternalTransfer d transfer, related_resources = None\<rparr>
      in if isTransferFinalized transfer then
           (case fulfillment of
              None \<Rightarrow> body
            | Some f \<Rightarrow>
                if state transfer = TRANSFER_STATE_EXECUTED then
                  body\<lparr>related_resources := Some
                    \<lparr>execution_condition_fulfillment = Some (convertToExternalFulfillment d f),
                     cancellation_condition_fulfillment = None\<rparr>\<rparr>
                else if state transfer = TRANSFER_STATE_REJECTED then
                  body\<lparr>related_resources := Some
                    \<lparr>execution_condition_fulfillment = None,
                     cancellation_condition_fulfillment = Some (convertToExternalFulfillment d f)\<rparr>\<rparr>
                else body)
         else body)"

text \<open>
  \<open>yield subscriptions.map (findOrCreate ...)\<close>: every call runs, also when another
  one is rejected, and the results keep the order of the array. The calls are
  started together; the model runs them one after the other in the order of the
  array, the \<open>i\<close>-th with the \<open>i\<close>-th uuid, which differs from an interleaved run
  only when the same subscription occurs twice in the array.
\<close>

fun createAll ::
  "(nat \<Rightarrow> string) \<Rightarrow> nat \<Rightarrow> Subscription list \<Rightarrow> string \<Rightarrow> store
     \<Rightarrow> (error + notification option) list \<times> store" where
  "createAll uuid i [] transferID st = ([], st)"
| "createAll uuid i (s # rest) transferID st =
     (case findOrCreate (id_s s) transferID \<lparr>defaults = None\<rparr> (uuid i) st of
        Inl err \<Rightarrow>
          (let (rs, st') = createAll uuid (Suc i) rest transferID st in (Inl err # rs, st'))
      | Inr (n, st1) \<Rightarrow>
          (let (rs, st') = createAll uuid (Suc i) rest transferID st1 in (Inr n # rs, st')))"

text \<open>A yielded array rejects with the rejection of one of its members, here the first.\<close>

fun firstRejection :: "(error + 'a) list \<Rightarrow> error option" where
  "firstRejection [] = None"
| "firstRejection (Inl err # rs) = Some err"
| "firstRejection (Inr v # rs) = firstRejection rs"

fun fulfilled :: "(error + 'a) list \<Rightarrow> 'a list" where
  "fulfilled [] = []"
| "fulfilled (Inl err # rs) = fulfilled rs"
| "fulfilled (Inr v # rs) = v # fulfilled rs"

definition emit :: "string \<Rightarrow> ('xt, 'xf) eventBody \<Rightarrow> ('xt, 'xf) world \<Rightarrow> ('xt, 'xf) world" where
  "emit name body w = w\<lparr>trace := trace w @ [Emitted name body]\<rparr>"

text \<open>
  \<open>yield notifications.map (processNotificationWithInstances ...)\<close>: every attempt
  runs, also when another one raises, the \<open>i\<close>-th on \<open>notifications[i]\<close> and
  \<open>subscriptions[i]\<close> with the \<open>i\<close>-th outcomes. The attempts are started together
  and each works on the cache entry and the record of its own notification; the
  model runs them one after the other in the order of the array. An attempt on
  an undefined notification ends with a TypeError before it has any effect.
\<close>

fun sendAll ::
  "('f, 'xt, 'xf) deps \<Rightarrow> (nat \<Rightarrow> attempt_io) \<Rightarrow> nat \<Rightarrow> (notification option \<times> Subscription) list
     \<Rightarrow> Transfer \<Rightarrow> 'f option \<Rightarrow> ('xt, 'xf) world \<Rightarrow> error option list \<times> ('xt, 'xf) world" where
  "sendAll d io i [] transfer fulfillment w = ([], w)"
| "sendAll d io i ((n, s) # rest) transfer fulfillment w =
     (let (r, w1) = (case n of
                       None \<Rightarrow> (Some (Error ''TypeError''), w)
                     | Some notification \<Rightarrow>
                         processNotificationWithInstances d (io i) notification transfer s
                           fulfillment w);
          (rs, w2) = sendAll d io (Suc i) rest transfer fulfillment w1
      in (r # rs, w2))"

fun firstError :: "error option list \<Rightarrow> error option" where
  "firstError [] = None"
| "firstError (Some err # rs) = Some err"
| "firstError (None # rs) = firstError rs"

text \<open>
  The detached block \<open>co (function * () {...}).catch (...)\<close>: the local events,
  then, if the scheduler is enabled, the immediate attempts and the request for
  a processing pass; a rejection of the attempts skips that request and ends in
  \<open>log.warn\<close>. The call \<open>scheduler.scheduleProcessing\<close> itself is taken to succeed.
\<close>

definition immediateSend ::
  "('f, 'xt, 'xf) deps \<Rightarrow> 'f env \<Rightarrow> notification option list \<Rightarrow> Subscription list \<Rightarrow> Transfer
     \<Rightarrow> 'f option \<Rightarrow> string list \<Rightarrow> ('xt, 'xf) eventBody \<Rightarrow> ('xt, 'xf) world \<Rightarrow> ('xt, 'xf) world" where
  "immediateSend d e notifs subscriptions transfer fulfillment accounts body w =
     (let w1 = foldl (\<lambda>w' acct. emit (''transfer-'' @ acct) body w') w accounts
      in if \<not> isEnabled e then w1
         else
           (let (outcomes, w2) =
                  sendAll d (attempt e) 0 (zip notifs subscriptions) transfer fulfillment w1
            in (case firstError outcomes of
                  Some err \<Rightarrow> w2\<lparr>trace := trace w2 @ [Warned err]\<rparr>
                | None \<Rightarrow> w2\<lparr>trace := trace w2 @ [ProcessingScheduled]\<rparr>)))"

text \<open>
  One dispatch cycle. The result is the exception \<open>queueNotifications\<close> ends with
  for its caller, if any, and the state once the detached block has run to its end.
\<close>

definition queueNotifications ::
  "('f, 'xt, 'xf) deps \<Rightarrow> 'f env \<Rightarrow> Transfer \<Rightarrow> ('xt, 'xf) world
     \<Rightarrow> error option \<times> ('xt, 'xf) world" where
  "queueNotifications d e transfer w =
     (let accounts = affectedAccounts transfer;
          fulfillment = fetchFulfillment e transfer;
          body = localBody d transfer fulfillment
      in (case getAffectedSubscriptions e (affectedAccountUris d transfer) of
            None \<Rightarrow> (None, w)
          | Some subscriptions \<Rightarrow>
              (let (created, st') =
                     createAll (uuid4 e) 0 subscriptions (id_t transfer) (notifications w);
                   w1 = w\<lparr>notifications := st'\<rparr>
               in (case firstRejection created of
                     Some err \<Rightarrow> (Some err, w1)
                   | None \<Rightarrow>
                       (None, immediateSend d e (fulfilled created) subscriptions transfer
                                fulfillment accounts body w1)))))"

section \<open>Observations\<close>

text \<open>The kinds of effects, and how often the signer and the retry interface were called.\<close>

fun isEmitted :: "('xt, 'xf) effect \<Rightarrow> bool" where
  "isEmitted (Emitted name body) = True"
| "isEmitted other = False"

fun isSigned :: "('xt, 'xf) effect \<Rightarrow> bool" where
  "isSigned (Signed body) = True"
| "isSigned other = False"

fun isSent :: "('xt, 'xf) effect \<Rightarrow> bool" where
  "isSent (Sent tgt payload) = True"
| "isSent other = False"

fun isRetry :: "('xt, 'xf) effect \<Rightarrow> bool" where
  "isRetry (RetryRequested n) = True"
| "isRetry other = False"

definition signCalls :: "('xt, 'xf) world \<Rightarrow> nat" where
  "signCalls w = length (filter isSigned (trace w))"

definition retryCalls :: "('xt, 'xf) world \<Rightarrow> nat" where
  "retryCalls w = length (filter isRetry (trace w))"

text \<open>The effects a delivery attempt can have on the collaborators.\<close>

definition attemptEffect :: "('xt, 'xf) effect \<Rightarrow> bool" where
  "attemptEffect ev = (isSigned ev \<or> isSent ev \<or> isRetry ev)"

text \<open>The local events emitted so far, in order, each with its body.\<close>

fun emissions :: "('xt, 'xf) effect list \<Rightarrow> (string \<times> ('xt, 'xf) eventBody) list" where
  "emissions [] = []"
| "emissions (Emitted name body # es) = (name, body) # emissions es"
| "emissions (other # es) = emissions es"

text \<open>The payload an attempt sends: the body it builds, after the signing step.\<close>

definition signedPayload ::
  "('f, 'xt, 'xf) deps \<Rightarrow> notification \<Rightarrow> Transfer \<Rightarrow> Subscription \<Rightarrow> 'f option
     \<Rightarrow> ('xt, 'xf) world \<Rightarrow> ('xt, 'xf) webhookBody" where
  "signedPayload d notification transfer subscription fulfillment w =
     fst (signNotification d notification
            (notificationBody d notification transfer subscription fulfillment) w)"

text \<open>
  A delivery has failed when the transport threw or answered with a status that
  is not below 400; an attempt raises when, after a failed delivery, the
  scheduler rejects the retry.
\<close>

definition deliveryFailed :: "response \<Rightarrow> bool" where
  "deliveryFailed r = (case r of Responded statusCode \<Rightarrow> \<not> statusCode < 400 | Threw err \<Rightarrow> True)"

definition attemptRaises :: "attempt_io \<Rightarrow> bool" where
  "attemptRaises io = (deliveryFailed (sendNotification io) \<and> retryNotification io \<noteq> None)"

text \<open>
  A dispatch cycle reaches its fan-out phase (the detached block) when the
  subscription lookup yields an array and every \<open>findOrCreate\<close> returns.
\<close>

definition reachesFanOut ::
  "('f, 'xt, 'xf) deps \<Rightarrow> 'f env \<Rightarrow> Transfer \<Rightarrow> ('xt, 'xf) world \<Rightarrow> Subscription list \<Rightarrow> bool" where
  "reachesFanOut d e transfer w subscriptions =
     (getAffectedSubscriptions e (affectedAccountUris d transfer) = Some subscriptions
      \<and> firstRejection (fst (createAll (uuid4 e) 0 subscriptions (id_t transfer)
                               (notifications w))) = None)"

section \<open>A concrete scenario\<close>

text \<open>
  The inputs on which the theorems below are exercised: a ledger whose helpers
  are simple string functions and whose signer attaches a fixed non-empty
  signature, the spec's transfer between \<open>bob\<close> (debit) and \<open>alice\<close> (credit), a
  subscription of \<open>alice\<close>, and its Notification \<open>n1\<close>.
\<close>

definition ledger :: "(string, string, string) deps" where
  "ledger = \<lparr>uri_make = (\<lambda>kind name. kind @ ''/'' @ name),
             convertToExternalTransfer = id_t,
             convertToExternalFulfillment = (\<lambda>f. ''ext-'' @ f),
             sign = (\<lambda>body algorithm key. body\<lparr>signature := Some (algorithm @ '':'' @ key)\<rparr>),
             privateKey = ''secret''\<rparr>"

definition transferT :: "string \<Rightarrow> Transfer" where
  "transferT st = \<lparr>id_t = ''t1'', state = st,
                   debits = [\<lparr>account = ''bob''\<rparr>], credits = [\<lparr>account = ''alice''\<rparr>]\<rparr>"

definition subscriptionS :: Subscription where
  "subscriptionS = \<lparr>id_s = ''s1'', owner = ''alice'', target = ''http://alice/hook''\<rparr>"

definition notificationN :: notification where
  "notificationN = [''id'' \<mapsto> ''n1'', ''subscription_id'' \<mapsto> ''s1'', ''transfer_id'' \<mapsto> ''t1'']"

definition worldW :: "(string, string) world" where
  "worldW = \<lparr>notifications = [notificationN], signatureCache = Map.empty, trace = []\<rparr>"

text \<open>
  The answers of the outside world in the scenario: the lookup finds the given
  subscriptions, no fulfillment is stored, the scheduler is enabled or not, and
  every immediate attempt meets the same outcomes.
\<close>

definition envE :: "Subscription list option \<Rightarrow> bool \<Rightarrow> attempt_io \<Rightarrow> string env" where
  "envE subs enabled io = \<lparr>getFulfillment = (\<lambda>i. None),
                            getAffectedSubscriptions = (\<lambda>uris. subs),
                            uuid4 = (\<lambda>i. ''u'' @ replicate i CHR ''x''),
                            isEnabled = enabled,
                            attempt = (\<lambda>i. io)\<rparr>"

section \<open>Facts about the store and findOrCreate\<close>

lemma find_None_filter: "find P xs = None \<Longrightarrow> filter P xs = []"
  by (induction xs) (auto split: if_splits)

lemma find_Some_filter: "find P xs = Some x \<Longrightarrow> filter P xs \<noteq> []"
  by (induction xs) (auto split: if_splits)

lemma find_append_None: "find P xs = None \<Longrightarrow> find P (xs @ ys) = find P ys"
  by (induction xs) (auto split: if_splits)

lemma findOrCreate_found:
  "getMatchingNotification S T st = Some r \<Longrightarrow> findOrCreate S T opts uuid st = Inr (Some r, st)"
  by (simp add: findOrCreate_def)

lemma newValues_pair:
  "newValues S T opts uuid ''subscription_id'' = Some S"
  "newValues S T opts uuid ''transfer_id'' = Some T"
  by (simp_all add: newValues_def Let_def)

lemma newValues_id: "\<exists>i. newValues S T opts uuid ''id'' = Some i"
  by (cases "defaults opts")
     (auto simp add: newValues_def Let_def truthy_def map_add_def split: option.splits)

lemma newValues_explicit_id:
  "defaults opts = Some d \<Longrightarrow> d ''id'' = Some i \<Longrightarrow> i \<noteq> []
     \<Longrightarrow> newValues S T opts uuid ''id'' = Some i"
  by (simp add: newValues_def Let_def truthy_def map_add_def)

lemma newValues_uuid: "newValues S T \<lparr>defaults = None\<rparr> uuid ''id'' = Some uuid"
  by (simp add: newValues_def Let_def truthy_def)

lemma findOrCreate_None:
  "getMatchingNotification S T st = None \<Longrightarrow>
   findOrCreate S T opts uuid st =
     (case insertNotification (newValues S T opts uuid) st of
        Inl err \<Rightarrow> Inl err
      | Inr st' \<Rightarrow> Inr (getNotification (str (newValues S T opts uuid ''id'')) st', st'))"
  unfolding findOrCreate_def newValues_def Let_def by (simp only: option.case)

lemma stored_for_found:
  "getMatchingNotification S T st = Some r \<Longrightarrow> 1 \<le> stored_for S T st"
  unfolding getMatchingNotification_def stored_for_def
  by (drule find_Some_filter) (simp add: Suc_le_eq)

lemma findOrCreate_created:
  assumes none: "getMatchingNotification S T st = None"
      and ok: "findOrCreate S T opts uuid st = Inr (r, st')"
  shows "st' = st @ [newValues S T opts uuid] \<and> r = Some (newValues S T opts uuid)
       \<and> getMatchingNotification S T st' = r \<and> stored_for S T st' = 1"
proof -
  let ?v = "newValues S T opts uuid"
  obtain i where i: "?v ''id'' = Some i" using newValues_id by blast
  from ok none have ins: "insertNotification ?v st = Inr st'"
    and r: "r = getNotification (str (?v ''id'')) st'"
    by (auto simp: findOrCreate_None split: sum.splits)
  from ins i have free: "getNotification i st = None" and st': "st' = st @ [?v]"
    by (auto simp: insertNotification_def split: option.splits)
  from free have "getNotification i st' = Some ?v"
    unfolding getNotification_def st' by (simp add: find_append_None i)
  with r i have r': "r = Some ?v" by (simp add: str_def)
  from none have m: "getMatchingNotification S T st' = Some ?v"
    unfolding getMatchingNotification_def st' by (simp add: find_append_None newValues_pair)
  from none have "stored_for S T st' = 1"
    unfolding getMatchingNotification_def stored_for_def st'
    by (simp add: find_None_filter newValues_pair)
  with st' r' m show ?thesis by simp
qed

text \<open>
  With no record for the pair and a free id, the call returns: it stores the new
  values and hands them back.
\<close>

lemma findOrCreate_fresh:
  assumes none: "getMatchingNotification S T st = None"
      and i: "newValues S T opts uuid ''id'' = Some i"
      and free: "getNotification i st = None"
  shows "findOrCreate S T opts uuid st
           = Inr (Some (newValues S T opts uuid), st @ [newValues S T opts uuid])"
proof -
  let ?v = "newValues S T opts uuid"
  from i free have ins: "insertNotification ?v st = Inr (st @ [?v])"
    by (simp add: insertNotification_def)
  from free have "getNotification i (st @ [?v]) = Some ?v"
    unfolding getNotification_def by (simp add: find_append_None i)
  with none ins i show ?thesis by (simp add: findOrCreate_None str_def)
qed

text \<open>
  Called as \<open>queueNotifications\<close> calls it (no defaults) with a uuid that is not
  yet an id of the store, \<open>findOrCreate\<close> always returns a record.
\<close>

lemma findOrCreate_returns:
  assumes "getNotification uuid st = None"
  shows "\<exists>n st'. findOrCreate S T \<lparr>defaults = None\<rparr> uuid st = Inr (Some n, st')"
proof (cases "getMatchingNotification S T st")
  case None
  from findOrCreate_fresh[OF None newValues_uuid assms] show ?thesis by blast
next
  case (Some r)
  then show ?thesis by (simp add: findOrCreate_found)
qed

text \<open>
  At most one Notification per pair is an invariant of the store under
  \<open>findOrCreate\<close>, for every pair and whatever the options are.
\<close>

lemma findOrCreate_invariant:
  assumes ok: "findOrCreate S T opts uuid st = Inr (r, st')"
      and inv: "stored_for S' T' st \<le> 1"
  shows "stored_for S' T' st' \<le> 1"
proof (cases "getMatchingNotification S T st")
  case (Some x)
  from findOrCreate_found[OF Some, of opts uuid] ok have "st' = st" by simp
  with inv show ?thesis by simp
next
  case None
  from findOrCreate_created[OF None ok]
  have st': "st' = st @ [newValues S T opts uuid]" and one: "stored_for S T st' = 1" by blast+
  show ?thesis
  proof (cases "S' = S \<and> T' = T")
    case True
    with one show ?thesis by simp
  next
    case False
    then have "stored_for S' T' st' = stored_for S' T' st"
      unfolding st' stored_for_def by (auto simp: newValues_pair)
    with inv show ?thesis by simp
  qed
qed

section \<open>Deduplicated creation\<close>

text \<open>
  Claim C1. Two calls of \<open>findOrCreate\<close> for the same pair (S, T), one after the
  other, on a store that holds at most one Notification for the pair: when the
  first call returns, the second call returns the very same record and leaves
  the store as the first call left it (it inserts nothing), and the store then
  holds exactly one Notification for the pair. This holds whatever options and
  uuid the two calls are given.
\<close>

theorem findOrCreate_twice:
  assumes inv: "stored_for S T st0 \<le> 1"
      and first: "findOrCreate S T opts1 uuid1 st0 = Inr (r1, st1)"
  shows "findOrCreate S T opts2 uuid2 st1 = Inr (r1, st1) \<and> stored_for S T st1 = 1
       \<and> (\<exists>n. r1 = Some n)"
proof (cases "getMatchingNotification S T st0")
  case None
  from findOrCreate_created[OF None first]
  have c: "getMatchingNotification S T st1 = r1" "stored_for S T st1 = 1"
    "r1 = Some (newValues S T opts1 uuid1)"
    by blast+
  from c(1,3) have "findOrCreate S T opts2 uuid2 st1 = Inr (r1, st1)"
    by (simp add: findOrCreate_found)
  with c show ?thesis by simp
next
  case (Some x)
  with first have "r1 = Some x" "st1 = st0" by (simp_all add: findOrCreate_def)
  with Some inv stored_for_found[OF Some] show ?thesis
    by (simp add: findOrCreate_found)
qed

theorem findOrCreate_twice_witness:
  "stored_for ''s1'' ''t1'' [] \<le> 1
   \<and> findOrCreate ''s1'' ''t1'' \<lparr>defaults = None\<rparr> ''n1'' []
       = Inr (Some (newValues ''s1'' ''t1'' \<lparr>defaults = None\<rparr> ''n1''),
              [newValues ''s1'' ''t1'' \<lparr>defaults = None\<rparr> ''n1''])
   \<and> findOrCreate ''s1'' ''t1'' \<lparr>defaults = Some [''id'' \<mapsto> ''n9'']\<rparr> ''n2''
        [newValues ''s1'' ''t1'' \<lparr>defaults = None\<rparr> ''n1'']
       = Inr (Some (newValues ''s1'' ''t1'' \<lparr>defaults = None\<rparr> ''n1''),
              [newValues ''s1'' ''t1'' \<lparr>defaults = None\<rparr> ''n1''])
   \<and> stored_for ''s1'' ''t1'' [newValues ''s1'' ''t1'' \<lparr>defaults = None\<rparr> ''n1''] = 1
   \<and> newValues ''s1'' ''t1'' \<lparr>defaults = None\<rparr> ''n1'' ''id'' = Some ''n1''"
proof -
  let ?v = "newValues ''s1'' ''t1'' \<lparr>defaults = None\<rparr> ''n1''"
  have h0: "stored_for ''s1'' ''t1'' [] \<le> 1" by (simp add: stored_for_def)
  have i: "?v ''id'' = Some ''n1''" by (rule newValues_uuid)
  have h1: "findOrCreate ''s1'' ''t1'' \<lparr>defaults = None\<rparr> ''n1'' [] = Inr (Some ?v, [?v])"
    using findOrCreate_fresh[of "''s1''" "''t1''" "[]" "\<lparr>defaults = None\<rparr>" "''n1''" "''n1''"] i
    by (simp add: getMatchingNotification_def getNotification_def)
  from findOrCreate_twice[OF h0 h1, of "\<lparr>defaults = Some [''id'' \<mapsto> ''n9'']\<rparr>" "''n2''"] h0 h1 i
  show ?thesis by simp
qed

text \<open>
  Claim C10. When a Notification already exists for the pair, \<open>findOrCreate\<close>
  ignores its options altogether, an explicit id and any other default value
  included: it returns the existing record as it is and leaves the store
  untouched, so no record with the supplied id comes into being. The explicit
  id takes effect only when no record exists for the pair: then, if the id is
  truthy and still free, the new record is stored under it.
\<close>

theorem findOrCreate_explicit_id:
  "(getMatchingNotification S T st = Some r
      \<longrightarrow> findOrCreate S T opts uuid st = Inr (Some r, st))
   \<and> (getMatchingNotification S T st = None \<and> defaults opts = Some d \<and> d ''id'' = Some i
        \<and> i \<noteq> [] \<and> getNotification i st = None
      \<longrightarrow> (\<exists>n. findOrCreate S T opts uuid st = Inr (Some n, st @ [n]) \<and> n ''id'' = Some i))"
proof (intro conjI impI)
  assume "getMatchingNotification S T st = Some r"
  then show "findOrCreate S T opts uuid st = Inr (Some r, st)" by (rule findOrCreate_found)
next
  assume a: "getMatchingNotification S T st = None \<and> defaults opts = Some d \<and> d ''id'' = Some i
        \<and> i \<noteq> [] \<and> getNotification i st = None"
  then have i: "newValues S T opts uuid ''id'' = Some i" by (simp add: newValues_explicit_id)
  from a have "findOrCreate S T opts uuid st
      = Inr (Some (newValues S T opts uuid), st @ [newValues S T opts uuid])"
    by (intro findOrCreate_fresh[OF _ i]) simp_all
  with i show "\<exists>n. findOrCreate S T opts uuid st = Inr (Some n, st @ [n]) \<and> n ''id'' = Some i"
    by blast
qed

theorem findOrCreate_explicit_id_witness:
  "getMatchingNotification ''s1'' ''t1'' [newValues ''s1'' ''t1'' \<lparr>defaults = None\<rparr> ''n1'']
     = Some (newValues ''s1'' ''t1'' \<lparr>defaults = None\<rparr> ''n1'')
   \<and> findOrCreate ''s1'' ''t1'' \<lparr>defaults = Some [''id'' \<mapsto> ''n9'', ''retry_count'' \<mapsto> ''3'']\<rparr> ''n2''
        [newValues ''s1'' ''t1'' \<lparr>defaults = None\<rparr> ''n1'']
     = Inr (Some (newValues ''s1'' ''t1'' \<lparr>defaults = None\<rparr> ''n1''),
            [newValues ''s1'' ''t1'' \<lparr>defaults = None\<rparr> ''n1''])
   \<and> getNotification ''n9'' [newValues ''s1'' ''t1'' \<lparr>defaults = None\<rparr> ''n1''] = None
   \<and> getMatchingNotification ''s1'' ''t1'' [] = None
   \<and> getNotification ''n9'' [] = None
   \<and> (\<exists>n. findOrCreate ''s1'' ''t1''
               \<lparr>defaults = Some [''id'' \<mapsto> ''n9'', ''retry_count'' \<mapsto> ''3'']\<rparr> ''n2'' []
             = Inr (Some n, [n]) \<and> n ''id'' = Some ''n9'')"
proof -
  let ?v = "newValues ''s1'' ''t1'' \<lparr>defaults = None\<rparr> ''n1''"
  let ?o = "\<lparr>defaults = Some [''id'' \<mapsto> ''n9'', ''retry_count'' \<mapsto> ''3'']\<rparr>"
  have m: "getMatchingNotification ''s1'' ''t1'' [?v] = Some ?v"
    by (simp add: getMatchingNotification_def newValues_pair)
  have g: "getNotification ''n9'' [?v] = None"
    by (simp add: getNotification_def newValues_uuid)
  have e: "getMatchingNotification ''s1'' ''t1'' [] = None" "getNotification ''n9'' [] = None"
    by (simp_all add: getMatchingNotification_def getNotification_def)
  have d: "defaults ?o = Some [''id'' \<mapsto> ''n9'', ''retry_count'' \<mapsto> ''3'']"
    "[''id'' \<mapsto> ''n9'', ''retry_count'' \<mapsto> ''3''] ''id'' = Some ''n9''" "''n9'' \<noteq> []"
    by simp_all
  from findOrCreate_explicit_id[of "''s1''" "''t1''" "[?v]" ?v ?o "''n2''"] m
  have 1: "findOrCreate ''s1'' ''t1'' ?o ''n2'' [?v] = Inr (Some ?v, [?v])" by blast
  from findOrCreate_explicit_id[of "''s1''" "''t1''" "[]" _ ?o "''n2''"
        "[''id'' \<mapsto> ''n9'', ''retry_count'' \<mapsto> ''3'']" "''n9''"] e d
  have 2: "\<exists>n. findOrCreate ''s1'' ''t1'' ?o ''n2'' [] = Inr (Some n, [] @ [n]) \<and> n ''id'' = Some ''n9''"
    by blast
  from m g e 1 2 show ?thesis by simp
qed

section \<open>Facts about a delivery attempt\<close>

lemma signNotification_cached:
  "truthy (signatureCache w (str (n ''id''))) \<Longrightarrow>
   signNotification d n body w = (body\<lparr>signature := signatureCache w (str (n ''id''))\<rparr>, w)"
  by (simp add: signNotification_def)

lemma signNotification_fresh:
  "\<not> truthy (signatureCache w (str (n ''id''))) \<Longrightarrow>
   signNotification d n body w =
     (sign d body ''CC'' (privateKey d),
      w\<lparr>signatureCache := (signatureCache w)(str (n ''id'') := signature (sign d body ''CC'' (privateKey d))),
        trace := trace w @ [Signed body]\<rparr>)"
  by (simp add: signNotification_def Let_def)

lemma signNotification_store:
  "notifications (snd (signNotification d n body w)) = notifications w"
  by (cases "truthy (signatureCache w (str (n ''id'')))")
     (simp_all add: signNotification_cached signNotification_fresh)

lemma signNotification_entry:
  "signatureCache (snd (signNotification d n body w)) (str (n ''id''))
     = signature (fst (signNotification d n body w))"
  by (cases "truthy (signatureCache w (str (n ''id'')))")
     (simp_all add: signNotification_cached signNotification_fresh)

lemma signNotification_others:
  "k \<noteq> str (n ''id'') \<Longrightarrow>
   signatureCache (snd (signNotification d n body w)) k = signatureCache w k"
  by (cases "truthy (signatureCache w (str (n ''id'')))")
     (simp_all add: signNotification_cached signNotification_fresh)

lemma signNotification_trace:
  "trace (snd (signNotification d n body w))
     = trace w @ (if truthy (signatureCache w (str (n ''id''))) then [] else [Signed body])"
  by (cases "truthy (signatureCache w (str (n ''id'')))")
     (simp_all add: signNotification_cached signNotification_fresh)

lemma attempt_failed:
  assumes "deliveryFailed (sendNotification io)"
  shows "processNotificationWithInstances d io n t s f w =
     (retryNotification io,
      (snd (signNotification d n (notificationBody d n t s f) w))
        \<lparr>trace := trace (snd (signNotification d n (notificationBody d n t s f) w))
                  @ [Sent (target s) (signedPayload d n t s f w), RetryRequested n]\<rparr>)"
  using assms
  by (simp add: processNotificationWithInstances_def deliveryFailed_def signedPayload_def
      Let_def split_beta)

lemma attempt_delivered:
  assumes "\<not> deliveryFailed (sendNotification io)"
  shows "processNotificationWithInstances d io n t s f w =
     (None,
      (snd (signNotification d n (notificationBody d n t s f) w))
        \<lparr>trace := trace (snd (signNotification d n (notificationBody d n t s f) w))
                  @ [Sent (target s) (signedPayload d n t s f w)],
         signatureCache := (signatureCache (snd (signNotification d n (notificationBody d n t s f) w)))
                             (str (n ''id'') := None),
         notifications := deleteNotification (str (n ''id''))
                            (notifications (snd (signNotification d n (notificationBody d n t s f) w)))\<rparr>)"
  using assms
  by (simp add: processNotificationWithInstances_def deliveryFailed_def signedPayload_def
      Let_def split_beta)

lemma getNotification_deleted: "getNotification k (deleteNotification k st) = None"
  unfolding getNotification_def deleteNotification_def
  by (induction st) simp_all


section \<open>Outcome of a delivery attempt\<close>

text \<open>
  Claim C2. A delivery attempt whose transport call returns a status code below
  400 ends normally; it deletes the Notification from the store (a lookup of its
  id finds nothing afterwards), removes the signature-cache entry of that id, and
  does not call \<open>scheduler.retryNotification\<close>.
\<close>

theorem delivery_success_cleans_up:
  assumes "sendNotification io = Responded statusCode" and "statusCode < 400"
  shows "\<exists>w'. processNotificationWithInstances d io n t s f w = (None, w')
     \<and> notifications w' = deleteNotification (str (n ''id'')) (notifications w)
     \<and> getNotification (str (n ''id'')) (notifications w') = None
     \<and> signatureCache w' (str (n ''id'')) = None
     \<and> retryCalls w' = retryCalls w"
proof -
  from assms have ok: "\<not> deliveryFailed (sendNotification io)"
    by (simp add: deliveryFailed_def)
  show ?thesis
    unfolding attempt_delivered[OF ok]
    by (simp add: signNotification_store getNotification_deleted retryCalls_def
        signNotification_trace)
qed

text \<open>
  Claim C3. A delivery attempt whose transport call throws, or returns a status
  code of 400 or more, leaves the store as it was (nothing is deleted), leaves
  the signature-cache entry of the notification in place (it holds the signature
  of the payload just sent; an entry that was there before is unchanged, and so
  are the entries of all other ids), calls \<open>scheduler.retryNotification\<close> exactly
  once, as its last effect, and ends the way that call ends: the exception of
  the transport is not propagated.
\<close>

theorem delivery_failure_keeps_state:
  assumes "sendNotification io = Threw err
         \<or> (sendNotification io = Responded statusCode \<and> 400 \<le> statusCode)"
  shows "\<exists>w'. processNotificationWithInstances d io n t s f w = (retryNotification io, w')
     \<and> notifications w' = notifications w
     \<and> signatureCache w' (str (n ''id'')) = signature (signedPayload d n t s f w)
     \<and> (truthy (signatureCache w (str (n ''id''))) \<longrightarrow> signatureCache w' = signatureCache w)
     \<and> (\<forall>k. k \<noteq> str (n ''id'') \<longrightarrow> signatureCache w' k = signatureCache w k)
     \<and> retryCalls w' = retryCalls w + 1
     \<and> last (trace w') = RetryRequested n"
proof -
  from assms have failed: "deliveryFailed (sendNotification io)"
    by (auto simp: deliveryFailed_def)
  show ?thesis
    unfolding attempt_failed[OF failed]
    by (simp add: signNotification_store signNotification_entry signNotification_others
        signedPayload_def retryCalls_def signNotification_trace signNotification_cached)
qed

lemma signCalls_attempt:
  "signCalls (snd (processNotificationWithInstances d io n t s f w))
     = signCalls w + (if truthy (signatureCache w (str (n ''id''))) then 0 else 1)"
  by (cases "deliveryFailed (sendNotification io)")
     (simp_all add: attempt_failed attempt_delivered signCalls_def signNotification_trace)

text \<open>
  Claim C4. Two successive attempts for the same notification id, the first of
  which fails to deliver and sends a payload with a truthy signature: the first
  attempt leaves that signature in the cache, the second attaches it unchanged
  to the body it rebuilds (so both payloads carry the same signature) and does
  not call the signer, which is therefore called at most once over the two
  attempts.
\<close>

theorem signature_reuse:
  assumes same: "str (n2 ''id'') = str (n1 ''id'')"
      and failed: "deliveryFailed (sendNotification io1)"
      and sig: "truthy (signature (signedPayload d n1 t1 s1 f1 w))"
      and first: "processNotificationWithInstances d io1 n1 t1 s1 f1 w = (r1, w1)"
      and second: "processNotificationWithInstances d io2 n2 t2 s2 f2 w1 = (r2, w2)"
  shows "signedPayload d n2 t2 s2 f2 w1
           = (notificationBody d n2 t2 s2 f2)\<lparr>signature := signature (signedPayload d n1 t1 s1 f1 w)\<rparr>
       \<and> signature (signedPayload d n2 t2 s2 f2 w1) = signature (signedPayload d n1 t1 s1 f1 w)
       \<and> signatureCache w1 (str (n1 ''id'')) = signature (signedPayload d n1 t1 s1 f1 w)
       \<and> signCalls w2 = signCalls w1 \<and> signCalls w2 \<le> signCalls w + 1
       \<and> Sent (target s1) (signedPayload d n1 t1 s1 f1 w) \<in> set (trace w1)
       \<and> Sent (target s2) (signedPayload d n2 t2 s2 f2 w1) \<in> set (trace w2)"
proof -
  let ?k = "str (n1 ''id'')"
  from first have w1: "w1 = snd (processNotificationWithInstances d io1 n1 t1 s1 f1 w)" by simp
  from second have w2: "w2 = snd (processNotificationWithInstances d io2 n2 t2 s2 f2 w1)" by simp
  have entry: "signatureCache w1 ?k = signature (signedPayload d n1 t1 s1 f1 w)"
    unfolding w1 attempt_failed[OF failed]
    by (simp add: signNotification_entry signedPayload_def)
  with sig same have cached: "truthy (signatureCache w1 (str (n2 ''id'')))" by simp
  have p2: "signedPayload d n2 t2 s2 f2 w1
           = (notificationBody d n2 t2 s2 f2)\<lparr>signature := signature (signedPayload d n1 t1 s1 f1 w)\<rparr>"
    unfolding signedPayload_def[of d n2 t2 s2 f2 w1]
    using cached by (simp add: signNotification_cached entry same)
  have c2: "signCalls w2 = signCalls w1"
    unfolding w2 by (simp add: signCalls_attempt cached)
  have c1: "signCalls w1 \<le> signCalls w + 1"
    unfolding w1 by (simp add: signCalls_attempt)
  have s1: "Sent (target s1) (signedPayload d n1 t1 s1 f1 w) \<in> set (trace w1)"
    unfolding w1 attempt_failed[OF failed] by simp
  have s2: "Sent (target s2) (signedPayload d n2 t2 s2 f2 w1) \<in> set (trace w2)"
    unfolding w2
    by (cases "deliveryFailed (sendNotification io2)")
       (simp_all add: attempt_failed attempt_delivered)
  from p2 entry c1 c2 s1 s2 show ?thesis by simp
qed


lemma notificationN_id: "str (notificationN ''id'') = ''n1''"
  by (simp add: notificationN_def str_def)

theorem delivery_success_cleans_up_witness:
  "sendNotification \<lparr>sendNotification = Responded 200, retryNotification = None\<rparr> = Responded 200
   \<and> (200::int) < 400
   \<and> (\<exists>w'. processNotificationWithInstances ledger
               \<lparr>sendNotification = Responded 200, retryNotification = None\<rparr>
               notificationN (transferT ''executed'') subscriptionS (Some ''f2'') worldW = (None, w')
          \<and> notifications w' = []
          \<and> getNotification ''n1'' (notifications w') = None
          \<and> signatureCache w' ''n1'' = None
          \<and> retryCalls w' = 0)"
proof -
  let ?io = "\<lparr>sendNotification = Responded 200, retryNotification = None\<rparr>"
  have h1: "sendNotification ?io = Responded 200" by simp
  have h2: "(200::int) < 400" by simp
  from delivery_success_cleans_up[OF h1 h2, of ledger notificationN "transferT ''executed''"
      subscriptionS "Some ''f2''" worldW]
  obtain w' where w': "processNotificationWithInstances ledger ?io notificationN
        (transferT ''executed'') subscriptionS (Some ''f2'') worldW = (None, w')"
    "notifications w' = deleteNotification (str (notificationN ''id'')) (notifications worldW)"
    "getNotification (str (notificationN ''id'')) (notifications w') = None"
    "signatureCache w' (str (notificationN ''id'')) = None"
    "retryCalls w' = retryCalls worldW"
    by blast
  have "deleteNotification ''n1'' (notifications worldW) = []"
    by (simp add: deleteNotification_def worldW_def notificationN_def)
  moreover have "retryCalls worldW = 0" by (simp add: retryCalls_def worldW_def)
  ultimately show ?thesis using w' h1 h2 by (simp add: notificationN_id)
qed

theorem delivery_failure_keeps_state_witness:
  "(sendNotification \<lparr>sendNotification = Responded 500, retryNotification = None\<rparr> = Threw (Error ''timeout'')
      \<or> (sendNotification \<lparr>sendNotification = Responded 500, retryNotification = None\<rparr> = Responded 500
          \<and> (400::int) \<le> 500))
   \<and> truthy (signatureCache (worldW\<lparr>signatureCache := [''n1'' \<mapsto> ''cached'']\<rparr>) ''n1'')
   \<and> ''n2'' \<noteq> ''n1''
   \<and> (\<exists>w'. processNotificationWithInstances ledger
               \<lparr>sendNotification = Responded 500, retryNotification = None\<rparr>
               notificationN (transferT ''executed'') subscriptionS (Some ''f2'')
               (worldW\<lparr>signatureCache := [''n1'' \<mapsto> ''cached'']\<rparr>) = (None, w')
          \<and> notifications w' = [notificationN]
          \<and> signatureCache w' = [''n1'' \<mapsto> ''cached'']
          \<and> signatureCache w' ''n2'' = None
          \<and> retryCalls w' = 1
          \<and> last (trace w') = RetryRequested notificationN)"
proof -
  let ?io = "\<lparr>sendNotification = Responded 500, retryNotification = None\<rparr>"
  let ?w = "worldW\<lparr>signatureCache := [''n1'' \<mapsto> ''cached'']\<rparr>"
  have h: "sendNotification ?io = Threw (Error ''timeout'')
      \<or> (sendNotification ?io = Responded 500 \<and> (400::int) \<le> 500)" by simp
  have t: "truthy (signatureCache ?w ''n1'')" by (simp add: truthy_def)
  have ne: "''n2'' \<noteq> ''n1''" by simp
  from delivery_failure_keeps_state[OF h, of ledger notificationN "transferT ''executed''"
      subscriptionS "Some ''f2''" ?w]
  obtain w' where w': "processNotificationWithInstances ledger ?io notificationN
        (transferT ''executed'') subscriptionS (Some ''f2'') ?w = (retryNotification ?io, w')"
    "notifications w' = notifications ?w"
    "truthy (signatureCache ?w (str (notificationN ''id''))) \<longrightarrow> signatureCache w' = signatureCache ?w"
    "\<forall>k. k \<noteq> str (notificationN ''id'') \<longrightarrow> signatureCache w' k = signatureCache ?w k"
    "retryCalls w' = retryCalls ?w + 1"
    "last (trace w') = RetryRequested notificationN"
    by blast
  from w'(3) t have c: "signatureCache w' = [''n1'' \<mapsto> ''cached'']" by (simp add: notificationN_id)
  from w'(4) ne have o: "signatureCache w' ''n2'' = None" by (simp add: notificationN_id)
  have "retryCalls ?w = 0" "notifications ?w = [notificationN]"
    by (simp_all add: retryCalls_def worldW_def)
  with w' c o h t show ?thesis by simp
qed

theorem signature_reuse_witness:
  "deliveryFailed (sendNotification \<lparr>sendNotification = Responded 500, retryNotification = None\<rparr>)
   \<and> truthy (signature (signedPayload ledger notificationN (transferT ''prepared'') subscriptionS None worldW))
   \<and> signature (signedPayload ledger notificationN (transferT ''prepared'') subscriptionS None worldW)
       = Some ''CC:secret''
   \<and> signature (signedPayload ledger notificationN (transferT ''executed'') subscriptionS (Some ''f2'')
        (snd (processNotificationWithInstances ledger
               \<lparr>sendNotification = Responded 500, retryNotification = None\<rparr>
               notificationN (transferT ''prepared'') subscriptionS None worldW)))
       = Some ''CC:secret''
   \<and> signCalls (snd (processNotificationWithInstances ledger
               \<lparr>sendNotification = Responded 200, retryNotification = None\<rparr>
               notificationN (transferT ''executed'') subscriptionS (Some ''f2'')
        (snd (processNotificationWithInstances ledger
               \<lparr>sendNotification = Responded 500, retryNotification = None\<rparr>
               notificationN (transferT ''prepared'') subscriptionS None worldW)))) \<le> 1"
proof -
  let ?io1 = "\<lparr>sendNotification = Responded 500, retryNotification = None\<rparr>"
  let ?io2 = "\<lparr>sendNotification = Responded 200, retryNotification = None\<rparr>"
  let ?a1 = "processNotificationWithInstances ledger ?io1 notificationN (transferT ''prepared'')
               subscriptionS None worldW"
  let ?a2 = "processNotificationWithInstances ledger ?io2 notificationN (transferT ''executed'')
               subscriptionS (Some ''f2'') (snd ?a1)"
  have f: "deliveryFailed (sendNotification ?io1)" by (simp add: deliveryFailed_def)
  have p: "signature (signedPayload ledger notificationN (transferT ''prepared'') subscriptionS None worldW)
       = Some ''CC:secret''"
    by (simp add: signedPayload_def signNotification_def notificationN_id worldW_def truthy_def
        ledger_def Let_def)
  then have t: "truthy (signature (signedPayload ledger notificationN (transferT ''prepared'')
      subscriptionS None worldW))" by (simp add: truthy_def)
  have 1: "?a1 = (fst ?a1, snd ?a1)" and 2: "?a2 = (fst ?a2, snd ?a2)" by simp_all
  have z: "signCalls worldW = 0" by (simp add: signCalls_def worldW_def)
  from signature_reuse[OF refl f t 1 2] f t p z show ?thesis by simp
qed

section \<open>Facts about a dispatch cycle\<close>

lemma foldl_emit:
  "foldl (\<lambda>w' acct. emit (g acct) body w') w accounts
     = w\<lparr>trace := trace w @ map (\<lambda>acct. Emitted (g acct) body) accounts\<rparr>"
  by (induction accounts arbitrary: w) (simp_all add: emit_def)

lemma findOrCreate_Some:
  assumes "findOrCreate S T opts uuid st = Inr (r, st')"
  shows "\<exists>n. r = Some n"
proof (cases "getMatchingNotification S T st")
  case None
  from findOrCreate_created[OF None assms] show ?thesis by blast
next
  case (Some x)
  from findOrCreate_found[OF Some, of opts uuid] assms show ?thesis by simp
qed

lemma createAll_fulfilled:
  "firstRejection (fst (createAll uuid i subs T st)) = None \<Longrightarrow>
   length (fulfilled (fst (createAll uuid i subs T st))) = length subs
   \<and> (\<forall>r \<in> set (fulfilled (fst (createAll uuid i subs T st))). r \<noteq> None)"
proof (induction subs arbitrary: i st)
  case Nil
  then show ?case by simp
next
  case (Cons s rest)
  show ?case
  proof (cases "findOrCreate (id_s s) T \<lparr>defaults = None\<rparr> (uuid i) st")
    case (Inl err)
    with Cons.prems show ?thesis by (simp add: split_beta)
  next
    case (Inr p)
    obtain n st1 where p: "p = (n, st1)" by (cases p)
    from Inr p findOrCreate_Some obtain m where n: "n = Some m" by blast
    from Cons.prems Inr p
    have "firstRejection (fst (createAll uuid (Suc i) rest T st1)) = None"
      by (simp add: split_beta)
    from Cons.IH[OF this] Inr p n show ?thesis by (simp add: split_beta)
  qed
qed

lemma attempt_outcome:
  "fst (processNotificationWithInstances d io n t s f w)
     = (if deliveryFailed (sendNotification io) then retryNotification io else None)"
  by (simp add: attempt_failed attempt_delivered)

lemma attempt_raises:
  "fst (processNotificationWithInstances d io n t s f w) \<noteq> None \<longleftrightarrow> attemptRaises io"
  by (simp add: attempt_outcome attemptRaises_def)

lemma attempt_effects:
  "\<exists>evs. trace (snd (processNotificationWithInstances d io n t s f w)) = trace w @ evs
       \<and> list_all attemptEffect evs"
  by (cases "deliveryFailed (sendNotification io)")
     (simp_all add: attempt_failed attempt_delivered signNotification_trace attemptEffect_def)

lemma sendAll_effects:
  "\<exists>evs. trace (snd (sendAll d io i ps t f w)) = trace w @ evs \<and> list_all attemptEffect evs"
proof (induction ps arbitrary: i w)
  case Nil
  then show ?case by simp
next
  case (Cons p rest)
  obtain n s where p: "p = (n, s)" by (cases p)
  show ?case
  proof (cases n)
    case None
    from Cons.IH[of "Suc i" w] p None show ?thesis by (simp add: split_beta)
  next
    case (Some m)
    let ?w1 = "snd (processNotificationWithInstances d (io i) m t s f w)"
    from attempt_effects[of d "io i" m t s f w]
    obtain evs1 where 1: "trace ?w1 = trace w @ evs1" "list_all attemptEffect evs1" by blast
    from Cons.IH[of "Suc i" ?w1]
    obtain evs2 where 2: "trace (snd (sendAll d io (Suc i) rest t f ?w1)) = trace ?w1 @ evs2"
      "list_all attemptEffect evs2" by blast
    from 1 2 p Some show ?thesis by (simp add: split_beta)
  qed
qed

lemma sendAll_raises:
  "\<forall>n \<in> set (map fst ps). n \<noteq> None \<Longrightarrow>
   firstError (fst (sendAll d io i ps t f w)) = None
     \<longleftrightarrow> (\<forall>j < length ps. \<not> attemptRaises (io (i + j)))"
proof (induction ps arbitrary: i w)
  case Nil
  then show ?case by simp
next
  case (Cons p rest)
  obtain n s where p: "p = (n, s)" by (cases p)
  with Cons.prems obtain m where m: "n = Some m" by auto
  let ?a = "processNotificationWithInstances d (io i) m t s f w"
  from Cons.prems have "\<forall>n \<in> set (map fst rest). n \<noteq> None" by simp
  from Cons.IH[OF this, of "Suc i" "snd ?a"]
  have ih: "firstError (fst (sendAll d io (Suc i) rest t f (snd ?a))) = None
     \<longleftrightarrow> (\<forall>j < length rest. \<not> attemptRaises (io (Suc i + j)))" .
  have split: "(\<forall>j < length (p # rest). \<not> attemptRaises (io (i + j)))
     \<longleftrightarrow> \<not> attemptRaises (io i) \<and> (\<forall>j < length rest. \<not> attemptRaises (io (Suc i + j)))"
    by (auto simp: less_Suc_eq_0_disj)
  show ?case
  proof (cases "fst ?a")
    case None
    with attempt_raises[of d "io i" m t s f w] have "\<not> attemptRaises (io i)" by simp
    with None ih p m show ?thesis unfolding split by (simp add: split_beta)
  next
    case (Some err)
    with attempt_raises[of d "io i" m t s f w] have "attemptRaises (io i)" by simp
    with Some p m show ?thesis unfolding split by (simp add: split_beta)
  qed
qed


lemma attemptEffect_kind:
  "attemptEffect ev \<Longrightarrow> \<not> isEmitted ev \<and> ev \<noteq> ProcessingScheduled \<and> ev \<noteq> Warned err"
  by (cases ev) (simp_all add: attemptEffect_def)

lemma queue_reaches:
  assumes "reachesFanOut d e t w subs"
  shows "queueNotifications d e t w =
     (None, immediateSend d e
              (fulfilled (fst (createAll (uuid4 e) 0 subs (id_t t) (notifications w))))
              subs t (fetchFulfillment e t) (affectedAccounts t)
              (localBody d t (fetchFulfillment e t))
              (w\<lparr>notifications := snd (createAll (uuid4 e) 0 subs (id_t t) (notifications w))\<rparr>))"
  using assms
  by (simp add: queueNotifications_def reachesFanOut_def Let_def split_beta)

lemma immediateSend_disabled:
  "\<not> isEnabled e \<Longrightarrow>
   immediateSend d e ns subs t f accounts body w
     = w\<lparr>trace := trace w @ map (\<lambda>acct. Emitted (''transfer-'' @ acct) body) accounts\<rparr>"
  by (simp add: immediateSend_def foldl_emit)

lemma immediateSend_enabled:
  assumes en: "isEnabled e"
      and len: "length ns = length subs"
      and def: "\<forall>n \<in> set ns. n \<noteq> None"
  shows "\<exists>evs final. list_all attemptEffect evs
     \<and> trace (immediateSend d e ns subs t f accounts body w)
         = trace w @ map (\<lambda>acct. Emitted (''transfer-'' @ acct) body) accounts @ evs @ [final]
     \<and> (if \<forall>i < length subs. \<not> attemptRaises (attempt e i)
         then final = ProcessingScheduled else (\<exists>err. final = Warned err))"
proof -
  let ?w1 = "w\<lparr>trace := trace w @ map (\<lambda>acct. Emitted (''transfer-'' @ acct) body) accounts\<rparr>"
  let ?r = "sendAll d (attempt e) 0 (zip ns subs) t f ?w1"
  from sendAll_effects[of d "attempt e" 0 "zip ns subs" t f ?w1]
  obtain evs where evs: "trace (snd ?r) = trace ?w1 @ evs" "list_all attemptEffect evs" by blast
  from len def have "\<forall>n \<in> set (map fst (zip ns subs)). n \<noteq> None" by simp
  from sendAll_raises[OF this, of d "attempt e" 0 t f ?w1] len
  have raises: "firstError (fst ?r) = None \<longleftrightarrow> (\<forall>i < length subs. \<not> attemptRaises (attempt e i))"
    by simp
  have im: "immediateSend d e ns subs t f accounts body w
     = (case firstError (fst ?r) of
          Some err \<Rightarrow> (snd ?r)\<lparr>trace := trace (snd ?r) @ [Warned err]\<rparr>
        | None \<Rightarrow> (snd ?r)\<lparr>trace := trace (snd ?r) @ [ProcessingScheduled]\<rparr>)"
    unfolding immediateSend_def foldl_emit Let_def split_beta
    by (simp only: en not_True_eq_False if_False)
  show ?thesis
  proof (cases "firstError (fst ?r)")
    case None
    with raises have "\<forall>i < length subs. \<not> attemptRaises (attempt e i)" by simp
    with None im evs show ?thesis
      by (intro exI[of _ evs] exI[of _ ProcessingScheduled]) simp
  next
    case (Some err)
    with raises have "\<not> (\<forall>i < length subs. \<not> attemptRaises (attempt e i))" by simp
    with Some im evs show ?thesis
      by (intro exI[of _ evs] exI[of _ "Warned err"]) simp
  qed
qed

lemma queue_fanout:
  assumes reach: "reachesFanOut d e t w subs"
  shows "\<exists>w' evs final. queueNotifications d e t w = (None, w')
     \<and> list_all attemptEffect evs
     \<and> trace w' = trace w
          @ map (\<lambda>acct. Emitted (''transfer-'' @ acct) (localBody d t (fetchFulfillment e t)))
              (affectedAccounts t)
          @ (if isEnabled e then evs @ [final] else [])
     \<and> (if \<forall>i < length subs. \<not> attemptRaises (attempt e i)
         then final = ProcessingScheduled else (\<exists>err. final = Warned err))"
proof -
  let ?c = "createAll (uuid4 e) 0 subs (id_t t) (notifications w)"
  let ?w1 = "w\<lparr>notifications := snd ?c\<rparr>"
  let ?body = "localBody d t (fetchFulfillment e t)"
  from reach have "firstRejection (fst ?c) = None" by (simp add: reachesFanOut_def)
  from createAll_fulfilled[OF this]
  have len: "length (fulfilled (fst ?c)) = length subs"
    and def: "\<forall>n \<in> set (fulfilled (fst ?c)). n \<noteq> None" by simp_all
  note q = queue_reaches[OF reach]
  show ?thesis
  proof (cases "isEnabled e")
    case True
    from immediateSend_enabled[OF True len def, of d t "fetchFulfillment e t" "affectedAccounts t"
        ?body ?w1]
    obtain evs final where "list_all attemptEffect evs"
      "trace (immediateSend d e (fulfilled (fst ?c)) subs t (fetchFulfillment e t)
          (affectedAccounts t) ?body ?w1)
         = trace ?w1 @ map (\<lambda>acct. Emitted (''transfer-'' @ acct) ?body) (affectedAccounts t)
             @ evs @ [final]"
      "if \<forall>i < length subs. \<not> attemptRaises (attempt e i)
         then final = ProcessingScheduled else (\<exists>err. final = Warned err)"
      by blast
    with True q show ?thesis by (intro exI[of _ "snd (queueNotifications d e t w)"] exI[of _ evs] exI[of _ final]) simp
  next
    case False
    have "if \<forall>i < length subs. \<not> attemptRaises (attempt e i)
         then ProcessingScheduled = (ProcessingScheduled :: ('b, 'c) effect)
         else (\<exists>err. Warned (Error []) = (Warned err :: ('b, 'c) effect))" by simp
    with False q show ?thesis
      apply (cases "\<forall>i < length subs. \<not> attemptRaises (attempt e i)")
       apply (intro exI[of _ "snd (queueNotifications d e t w)"] exI[of _ "[]"] exI[of _ ProcessingScheduled])
       apply (simp add: immediateSend_disabled)
      apply (intro exI[of _ "snd (queueNotifications d e t w)"] exI[of _ "[]"] exI[of _ "Warned (Error [])"])
      apply (simp add: immediateSend_disabled)
      done
  qed
qed

section \<open>Facts about the fan-out\<close>

lemma emissions_append: "emissions (xs @ ys) = emissions xs @ emissions ys"
  by (induction xs rule: emissions.induct) simp_all

lemma emissions_Emitted:
  "emissions (map (\<lambda>acct. Emitted (g acct) body) accounts) = map (\<lambda>acct. (g acct, body)) accounts"
  by (induction accounts) simp_all

lemma emissions_none: "\<forall>ev \<in> set evs. \<not> isEmitted ev \<Longrightarrow> emissions evs = []"
  by (induction evs rule: emissions.induct) simp_all

lemma names_set:
  "fst ` set (xs @ map (\<lambda>a. (g a, b)) (map f ds @ map f cs @ [z]))
     = fst ` set xs \<union> g ` (f ` set ds \<union> f ` set cs \<union> {z})"
  by (simp add: image_Un image_image Un_assoc Un_commute Un_left_commute)

lemma fanout_rest:
  assumes "list_all attemptEffect evs"
      and "if c then final = ProcessingScheduled else (\<exists>err. final = Warned err)"
  shows "\<forall>ev \<in> set (if en then evs @ [final] else []). \<not> isEmitted ev"
  using assms by (auto simp: list_all_iff dest: attemptEffect_kind split: if_splits)

lemma fanout_emissions:
  assumes "reachesFanOut d e t w subs"
  shows "emissions (trace (snd (queueNotifications d e t w)))
           = emissions (trace w)
             @ map (\<lambda>acct. (''transfer-'' @ acct, localBody d t (fetchFulfillment e t)))
                 (map account (debits t) @ map account (credits t) @ [''*''])
       \<and> fst ` set (emissions (trace (snd (queueNotifications d e t w))))
           = fst ` set (emissions (trace w))
             \<union> (\<lambda>acct. ''transfer-'' @ acct)
                 ` (account ` set (debits t) \<union> account ` set (credits t) \<union> {''*''})"
proof -
  let ?body = "localBody d t (fetchFulfillment e t)"
  from queue_fanout[OF assms]
  obtain w' evs final where q: "queueNotifications d e t w = (None, w')"
    "list_all attemptEffect evs"
    "trace w' = trace w
          @ map (\<lambda>acct. Emitted (''transfer-'' @ acct) ?body) (affectedAccounts t)
          @ (if isEnabled e then evs @ [final] else [])"
    "if \<forall>i < length subs. \<not> attemptRaises (attempt e i)
         then final = ProcessingScheduled else (\<exists>err. final = Warned err)"
    by blast
  from fanout_rest[OF q(2) q(4)]
  have "emissions (if isEnabled e then evs @ [final] else []) = []"
    by (rule emissions_none)
  with q(3) have "emissions (trace w')
      = emissions (trace w) @ map (\<lambda>acct. (''transfer-'' @ acct, ?body)) (affectedAccounts t)"
    by (simp only: emissions_append emissions_Emitted append_Nil2)
  then have 1: "emissions (trace w')
      = emissions (trace w) @ map (\<lambda>acct. (''transfer-'' @ acct, ?body))
          (map account (debits t) @ map account (credits t) @ [''*''])"
    by (simp add: affectedAccounts_def)
  have 2: "fst ` set (emissions (trace w'))
           = fst ` set (emissions (trace w))
             \<union> (\<lambda>acct. ''transfer-'' @ acct)
                 ` (account ` set (debits t) \<union> account ` set (credits t) \<union> {''*''})"
    unfolding 1 by (rule names_set)
  from 1 2 q(1) show ?thesis by simp
qed

lemma fanout_order:
  assumes "reachesFanOut d e t w subs"
  shows "\<exists>rest. trace (snd (queueNotifications d e t w))
           = trace w
             @ map (\<lambda>acct. Emitted (''transfer-'' @ acct) (localBody d t (fetchFulfillment e t)))
                 (affectedAccounts t)
             @ rest
       \<and> (\<forall>ev \<in> set rest. \<not> isEmitted ev)
       \<and> (\<not> isEnabled e \<longrightarrow> rest = [])"
proof -
  let ?body = "localBody d t (fetchFulfillment e t)"
  from queue_fanout[OF assms]
  obtain w' evs final where q: "queueNotifications d e t w = (None, w')"
    "list_all attemptEffect evs"
    "trace w' = trace w
          @ map (\<lambda>acct. Emitted (''transfer-'' @ acct) ?body) (affectedAccounts t)
          @ (if isEnabled e then evs @ [final] else [])"
    "if \<forall>i < length subs. \<not> attemptRaises (attempt e i)
         then final = ProcessingScheduled else (\<exists>err. final = Warned err)"
    by blast
  note r = fanout_rest[OF q(2) q(4), of "isEnabled e"]
  from q(1,3) r show ?thesis
    by (intro exI[of _ "if isEnabled e then evs @ [final] else []"]) simp
qed

lemma fanout_scheduling:
  assumes "reachesFanOut d e t w subs"
  shows "\<exists>w' new. queueNotifications d e t w = (None, w') \<and> trace w' = trace w @ new
       \<and> (ProcessingScheduled \<in> set new
            \<longleftrightarrow> isEnabled e \<and> (\<forall>i < length subs. \<not> attemptRaises (attempt e i)))
       \<and> (isEnabled e \<and> (\<exists>i < length subs. attemptRaises (attempt e i))
            \<longrightarrow> (\<exists>err. Warned err \<in> set new))"
proof -
  let ?body = "localBody d t (fetchFulfillment e t)"
  let ?em = "map (\<lambda>acct. Emitted (''transfer-'' @ acct) ?body) (affectedAccounts t)"
  from queue_fanout[OF assms]
  obtain w' evs final where q: "queueNotifications d e t w = (None, w')"
    "list_all attemptEffect evs"
    "trace w' = trace w @ ?em @ (if isEnabled e then evs @ [final] else [])"
    "if \<forall>i < length subs. \<not> attemptRaises (attempt e i)
         then final = ProcessingScheduled else (\<exists>err. final = Warned err)"
    by blast
  let ?new = "?em @ (if isEnabled e then evs @ [final] else [])"
  have a: "ProcessingScheduled \<notin> set ?em" by auto
  from q(2) have b: "ProcessingScheduled \<notin> set evs"
    by (auto simp: list_all_iff dest: attemptEffect_kind)
  from q(4) have c: "final = ProcessingScheduled \<longleftrightarrow> (\<forall>i < length subs. \<not> attemptRaises (attempt e i))"
    by (auto split: if_splits)
  from a b c have 1: "ProcessingScheduled \<in> set ?new
            \<longleftrightarrow> isEnabled e \<and> (\<forall>i < length subs. \<not> attemptRaises (attempt e i))"
    by auto
  from q(4) have 2: "isEnabled e \<and> (\<exists>i < length subs. attemptRaises (attempt e i))
            \<longrightarrow> (\<exists>err. Warned err \<in> set ?new)"
    by (auto split: if_splits)
  from q(1,3) 1 2 show ?thesis
    by (intro exI[of _ w'] exI[of _ ?new]) simp
qed


lemma queue_no_result:
  "getAffectedSubscriptions e (affectedAccountUris d t) = None \<Longrightarrow>
   queueNotifications d e t w = (None, w)"
  by (simp add: queueNotifications_def Let_def)

lemma queue_empty_array:
  assumes "getAffectedSubscriptions e (affectedAccountUris d t) = Some []"
  shows "queueNotifications d e t w =
     (None, w\<lparr>trace := trace w
                @ map (\<lambda>acct. Emitted (''transfer-'' @ acct) (localBody d t (fetchFulfillment e t)))
                    (affectedAccounts t)
                @ (if isEnabled e then [ProcessingScheduled] else [])\<rparr>)"
proof -
  have w: "w\<lparr>notifications := notifications w\<rparr> = w" by simp
  from assms have q: "queueNotifications d e t w =
     (None, immediateSend d e [] [] t (fetchFulfillment e t) (affectedAccounts t)
              (localBody d t (fetchFulfillment e t)) w)"
    unfolding queueNotifications_def Let_def by (simp add: w)
  show ?thesis
    unfolding q immediateSend_def foldl_emit Let_def by simp
qed

lemma queue_rejected:
  assumes "getAffectedSubscriptions e (affectedAccountUris d t) = Some subs"
      and "firstRejection (fst (createAll (uuid4 e) 0 subs (id_t t) (notifications w))) = Some err"
  shows "queueNotifications d e t w =
     (Some err, w\<lparr>notifications := snd (createAll (uuid4 e) 0 subs (id_t t) (notifications w))\<rparr>)"
  using assms by (simp add: queueNotifications_def Let_def split_beta)

lemma cycle_order:
  "\<exists>ems rest. trace (snd (queueNotifications d e t w)) = trace w @ ems @ rest
       \<and> (\<forall>ev \<in> set ems. isEmitted ev)
       \<and> (\<forall>ev \<in> set rest. \<not> isEmitted ev)
       \<and> (reachesFanOut d e t w subs
            \<longrightarrow> ems = map (\<lambda>acct. Emitted (''transfer-'' @ acct)
                                   (localBody d t (fetchFulfillment e t)))
                          (affectedAccounts t))
       \<and> (\<not> isEnabled e \<longrightarrow> rest = [])"
proof (cases "getAffectedSubscriptions e (affectedAccountUris d t)")
  case None
  then have "\<not> reachesFanOut d e t w subs" by (simp add: reachesFanOut_def)
  with queue_no_result[OF None, of w] show ?thesis
    by (intro exI[of _ "[]"]) simp
next
  case (Some subs0)
  show ?thesis
  proof (cases "firstRejection (fst (createAll (uuid4 e) 0 subs0 (id_t t) (notifications w)))")
    case None
    with Some have reach: "reachesFanOut d e t w subs0" by (simp add: reachesFanOut_def)
    let ?ems = "map (\<lambda>acct. Emitted (''transfer-'' @ acct) (localBody d t (fetchFulfillment e t)))
                  (affectedAccounts t)"
    from fanout_order[OF reach]
    obtain rest where r: "trace (snd (queueNotifications d e t w)) = trace w @ ?ems @ rest"
      "\<forall>ev \<in> set rest. \<not> isEmitted ev" "\<not> isEnabled e \<longrightarrow> rest = []" by blast
    have "\<forall>ev \<in> set ?ems. isEmitted ev" by simp
    with r show ?thesis by (intro exI[of _ ?ems] exI[of _ rest]) simp
  next
    case (Some err)
    with \<open>getAffectedSubscriptions e (affectedAccountUris d t) = Some subs0\<close>
    have "\<not> reachesFanOut d e t w subs" by (auto simp: reachesFanOut_def)
    with queue_rejected[OF \<open>getAffectedSubscriptions e (affectedAccountUris d t) = Some subs0\<close> Some]
    show ?thesis by (intro exI[of _ "[]"]) simp
  qed
qed

lemma scenario_reaches:
  "id_t t = ''t1'' \<Longrightarrow>
   reachesFanOut ledger (envE (Some [subscriptionS]) en io) t worldW [subscriptionS]"
proof -
  assume t: "id_t t = ''t1''"
  have m: "getMatchingNotification ''s1'' ''t1'' [notificationN] = Some notificationN"
    by (simp add: getMatchingNotification_def notificationN_def)
  have "findOrCreate ''s1'' ''t1'' \<lparr>defaults = None\<rparr> u [notificationN]
      = Inr (Some notificationN, [notificationN])" for u
    by (rule findOrCreate_found[OF m])
  then show ?thesis
    by (simp add: reachesFanOut_def envE_def subscriptionS_def worldW_def t)
qed

section \<open>Fan-out dispatch\<close>

text \<open>
  Claim C7, as amended. In a dispatch cycle that reaches the fan-out phase, the
  local events emitted are one per debit, then one per credit, then the
  wildcard, each named \<open>transfer-<account>\<close> and each carrying the same body. So
  the set of emitted names is exactly the names of the debit and credit accounts
  and \<open>transfer-*\<close>; an account that occurs several times among the debits and
  credits is emitted once per occurrence.
\<close>

theorem local_events_emitted:
  assumes "reachesFanOut d e t w subs"
  shows "emissions (trace (snd (queueNotifications d e t w)))
           = emissions (trace w)
             @ map (\<lambda>acct. (''transfer-'' @ acct, localBody d t (fetchFulfillment e t)))
                 (map account (debits t) @ map account (credits t) @ [''*''])
       \<and> fst ` set (emissions (trace (snd (queueNotifications d e t w))))
           = fst ` set (emissions (trace w))
             \<union> (\<lambda>acct. ''transfer-'' @ acct)
                 ` (account ` set (debits t) \<union> account ` set (credits t) \<union> {''*''})"
  using assms by (rule fanout_emissions)

theorem local_events_emitted_witness:
  "reachesFanOut ledger (envE (Some [subscriptionS]) False \<lparr>sendNotification = Responded 200, retryNotification = None\<rparr>)
     (transferT ''prepared'') worldW [subscriptionS]
   \<and> emissions (trace (snd (queueNotifications ledger
        (envE (Some [subscriptionS]) False \<lparr>sendNotification = Responded 200, retryNotification = None\<rparr>)
        (transferT ''prepared'') worldW)))
     = [(''transfer-bob'', \<lparr>resource = ''t1'', related_resources = None\<rparr>),
        (''transfer-alice'', \<lparr>resource = ''t1'', related_resources = None\<rparr>),
        (''transfer-*'', \<lparr>resource = ''t1'', related_resources = None\<rparr>)]"
proof -
  let ?e = "envE (Some [subscriptionS]) False \<lparr>sendNotification = Responded 200, retryNotification = None\<rparr>"
  have h: "reachesFanOut ledger ?e (transferT ''prepared'') worldW [subscriptionS]"
    by (rule scenario_reaches) (simp add: transferT_def)
  have b: "localBody ledger (transferT ''prepared'') (fetchFulfillment ?e (transferT ''prepared''))
      = \<lparr>resource = ''t1'', related_resources = None\<rparr>"
    by (simp add: localBody_def fetchFulfillment_def isTransferFinalized_def transferT_def
        TRANSFER_STATE_EXECUTED_def TRANSFER_STATE_REJECTED_def ledger_def envE_def)
  from local_events_emitted[OF h] h show ?thesis
    by (simp add: b) (simp add: transferT_def worldW_def)
qed

theorem duplicate_event_counterexample:
  "reachesFanOut ledger (envE (Some [subscriptionS]) False \<lparr>sendNotification = Responded 200, retryNotification = None\<rparr>)
     \<lparr>id_t = ''t1'', state = ''prepared'', debits = [\<lparr>account = ''alice''\<rparr>],
      credits = [\<lparr>account = ''alice''\<rparr>]\<rparr> worldW [subscriptionS]
   \<and> map fst (emissions (trace (snd (queueNotifications ledger
        (envE (Some [subscriptionS]) False \<lparr>sendNotification = Responded 200, retryNotification = None\<rparr>)
        \<lparr>id_t = ''t1'', state = ''prepared'', debits = [\<lparr>account = ''alice''\<rparr>],
         credits = [\<lparr>account = ''alice''\<rparr>]\<rparr> worldW))))
     = [''transfer-alice'', ''transfer-alice'', ''transfer-*'']
   \<and> \<not> distinct (map fst (emissions (trace (snd (queueNotifications ledger
        (envE (Some [subscriptionS]) False \<lparr>sendNotification = Responded 200, retryNotification = None\<rparr>)
        \<lparr>id_t = ''t1'', state = ''prepared'', debits = [\<lparr>account = ''alice''\<rparr>],
         credits = [\<lparr>account = ''alice''\<rparr>]\<rparr> worldW)))))"
proof -
  let ?e = "envE (Some [subscriptionS]) False \<lparr>sendNotification = Responded 200, retryNotification = None\<rparr>"
  let ?t = "\<lparr>id_t = ''t1'', state = ''prepared'', debits = [\<lparr>account = ''alice''\<rparr>],
      credits = [\<lparr>account = ''alice''\<rparr>]\<rparr>"
  have h: "reachesFanOut ledger ?e ?t worldW [subscriptionS]"
    by (rule scenario_reaches) simp
  from fanout_emissions[OF h]
  have "map fst (emissions (trace (snd (queueNotifications ledger ?e ?t worldW))))
     = [''transfer-alice'', ''transfer-alice'', ''transfer-*'']"
    by (simp add: worldW_def)
  with h show ?thesis by simp
qed

text \<open>
  Claim C8. The effects of every dispatch cycle are its local events, one after
  the other with nothing in between, followed by the rest: every signing, every
  send to a subscriber, every retry request and the request for a processing
  pass come after the last local event, and no local event comes after any of
  them. In a cycle that reaches the fan-out phase the local events are those of
  all affected accounts. When the scheduler is not enabled nothing follows the
  local events: they are emitted and no send is attempted.
\<close>

theorem events_before_delivery:
  "\<exists>ems rest. trace (snd (queueNotifications d e t w)) = trace w @ ems @ rest
       \<and> (\<forall>ev \<in> set ems. isEmitted ev)
       \<and> (\<forall>ev \<in> set rest. \<not> isEmitted ev)
       \<and> (reachesFanOut d e t w subs
            \<longrightarrow> ems = map (\<lambda>acct. Emitted (''transfer-'' @ acct)
                                   (localBody d t (fetchFulfillment e t)))
                          (affectedAccounts t))
       \<and> (\<not> isEnabled e \<longrightarrow> rest = [])"
  by (rule cycle_order)


lemma scenario_trace:
  "trace (snd (queueNotifications ledger
        (envE (Some [subscriptionS]) True \<lparr>sendNotification = Responded 200, retryNotification = None\<rparr>)
        (transferT ''prepared'') worldW))
     = [Emitted ''transfer-bob'' \<lparr>resource = ''t1'', related_resources = None\<rparr>,
        Emitted ''transfer-alice'' \<lparr>resource = ''t1'', related_resources = None\<rparr>,
        Emitted ''transfer-*'' \<lparr>resource = ''t1'', related_resources = None\<rparr>,
        Signed \<lparr>resource = ''t1'', related_resources = None,
                id_b = ''subscription/s1/notifications/n1'', subscription_b = ''subscription/s1'',
                event = ''transfer.update'', signature = None\<rparr>,
        Sent ''http://alice/hook''
               \<lparr>resource = ''t1'', related_resources = None,
                id_b = ''subscription/s1/notifications/n1'', subscription_b = ''subscription/s1'',
                event = ''transfer.update'', signature = Some ''CC:secret''\<rparr>,
        ProcessingScheduled]"
proof -
  let ?io = "\<lparr>sendNotification = Responded 200, retryNotification = None\<rparr>"
  let ?e = "envE (Some [subscriptionS]) True ?io"
  let ?t = "transferT ''prepared''"
  have h: "reachesFanOut ledger ?e ?t worldW [subscriptionS]"
    by (rule scenario_reaches) (simp add: transferT_def)
  have m: "getMatchingNotification ''s1'' ''t1'' [notificationN] = Some notificationN"
    by (simp add: getMatchingNotification_def notificationN_def)
  have c: "createAll (uuid4 ?e) 0 [subscriptionS] (id_t ?t) (notifications worldW)
      = ([Inr (Some notificationN)], [notificationN])"
    by (simp add: subscriptionS_def transferT_def worldW_def findOrCreate_found[OF m])
  have f: "fetchFulfillment ?e ?t = None"
    by (simp add: fetchFulfillment_def envE_def)
  have b: "localBody ledger ?t None = \<lparr>resource = ''t1'', related_resources = None\<rparr>"
    by (simp add: localBody_def isTransferFinalized_def transferT_def
        TRANSFER_STATE_EXECUTED_def TRANSFER_STATE_REJECTED_def ledger_def)
  have nb: "notificationBody ledger notificationN ?t subscriptionS None
      = \<lparr>resource = ''t1'', related_resources = None,
                id_b = ''subscription/s1/notifications/n1'', subscription_b = ''subscription/s1'',
                event = ''transfer.update'', signature = None\<rparr>"
    by (simp add: notificationBody_def notificationN_id ledger_def subscriptionS_def transferT_def)
  have ok: "\<not> deliveryFailed (sendNotification ?io)" by (simp add: deliveryFailed_def)
  have a: "trace (snd (processNotificationWithInstances ledger ?io notificationN ?t subscriptionS None w))
      = trace w @ [Signed (notificationBody ledger notificationN ?t subscriptionS None),
                   Sent ''http://alice/hook''
                     ((notificationBody ledger notificationN ?t subscriptionS None)
                        \<lparr>signature := Some ''CC:secret''\<rparr>)]"
    if "signatureCache w = Map.empty" for w :: "(string, string) world"
    using that
    by (simp add: attempt_delivered[OF ok] signNotification_trace signedPayload_def
        signNotification_def truthy_def notificationN_id subscriptionS_def ledger_def)
  have o: "fst (processNotificationWithInstances ledger ?io notificationN ?t subscriptionS None w) = None"
    for w :: "(string, string) world"
    by (simp add: attempt_outcome ok)
  show ?thesis
    unfolding queue_reaches[OF h] c f b immediateSend_def foldl_emit Let_def
    by (simp add: envE_def split_beta o a worldW_def nb) (simp add: affectedAccounts_def transferT_def)
qed

theorem events_before_delivery_witness:
  "reachesFanOut ledger
     (envE (Some [subscriptionS]) True \<lparr>sendNotification = Responded 200, retryNotification = None\<rparr>)
     (transferT ''prepared'') worldW [subscriptionS]
   \<and> (\<exists>rest. trace (snd (queueNotifications ledger
        (envE (Some [subscriptionS]) True \<lparr>sendNotification = Responded 200, retryNotification = None\<rparr>)
        (transferT ''prepared'') worldW))
        = [Emitted ''transfer-bob'' \<lparr>resource = ''t1'', related_resources = None\<rparr>,
           Emitted ''transfer-alice'' \<lparr>resource = ''t1'', related_resources = None\<rparr>,
           Emitted ''transfer-*'' \<lparr>resource = ''t1'', related_resources = None\<rparr>] @ rest
      \<and> (\<forall>ev \<in> set rest. \<not> isEmitted ev)
      \<and> (\<exists>payload. Sent ''http://alice/hook'' payload \<in> set rest))"
proof -
  let ?io = "\<lparr>sendNotification = Responded 200, retryNotification = None\<rparr>"
  let ?e = "envE (Some [subscriptionS]) True ?io"
  let ?t = "transferT ''prepared''"
  have h: "reachesFanOut ledger ?e ?t worldW [subscriptionS]"
    by (rule scenario_reaches) (simp add: transferT_def)
  from events_before_delivery[of ledger ?e ?t worldW "[subscriptionS]"] h
  obtain rest where r: "trace (snd (queueNotifications ledger ?e ?t worldW))
           = trace worldW
             @ map (\<lambda>acct. Emitted (''transfer-'' @ acct) (localBody ledger ?t (fetchFulfillment ?e ?t)))
                 (affectedAccounts ?t)
             @ rest"
    "\<forall>ev \<in> set rest. \<not> isEmitted ev" by blast
  have b: "localBody ledger ?t (fetchFulfillment ?e ?t) = \<lparr>resource = ''t1'', related_resources = None\<rparr>"
    by (simp add: localBody_def fetchFulfillment_def isTransferFinalized_def transferT_def
        TRANSFER_STATE_EXECUTED_def TRANSFER_STATE_REJECTED_def ledger_def envE_def)
  have em: "trace worldW @ map (\<lambda>acct. Emitted (''transfer-'' @ acct) (localBody ledger ?t (fetchFulfillment ?e ?t)))
                 (affectedAccounts ?t)
      = [Emitted ''transfer-bob'' \<lparr>resource = ''t1'', related_resources = None\<rparr>,
           Emitted ''transfer-alice'' \<lparr>resource = ''t1'', related_resources = None\<rparr>,
           Emitted ''transfer-*'' \<lparr>resource = ''t1'', related_resources = None\<rparr>]"
    unfolding b by (simp add: worldW_def affectedAccounts_def transferT_def)
  from r(1) have tr: "trace (snd (queueNotifications ledger ?e ?t worldW))
      = [Emitted ''transfer-bob'' \<lparr>resource = ''t1'', related_resources = None\<rparr>,
           Emitted ''transfer-alice'' \<lparr>resource = ''t1'', related_resources = None\<rparr>,
           Emitted ''transfer-*'' \<lparr>resource = ''t1'', related_resources = None\<rparr>] @ rest"
    using em by simp
  then have "rest = drop 3 (trace (snd (queueNotifications ledger ?e ?t worldW)))" by simp
  then have "\<exists>payload. Sent ''http://alice/hook'' payload \<in> set rest"
    unfolding scenario_trace by simp
  with tr r(2) h show ?thesis by blast
qed


text \<open>
  Claim C5, as amended. In a dispatch cycle that reaches the fan-out phase,
  nothing that happens in the detached block reaches the caller:
  \<open>queueNotifications\<close> ends normally. The processing pass is requested exactly
  when the scheduler is enabled and no immediate attempt raises; a failed
  delivery (a status of 400 or more, or an exception of the transport) is
  handled inside the attempt and does not prevent the request. When the
  scheduler is enabled and an attempt does raise, the failure is caught and
  logged with \<open>log.warn\<close>, and the pass is not requested.
\<close>

theorem retry_pass_scheduled:
  assumes "reachesFanOut d e t w subs"
  shows "\<exists>w' new. queueNotifications d e t w = (None, w') \<and> trace w' = trace w @ new
       \<and> (ProcessingScheduled \<in> set new
            \<longleftrightarrow> isEnabled e \<and> (\<forall>i < length subs. \<not> attemptRaises (attempt e i)))
       \<and> (isEnabled e \<and> (\<exists>i < length subs. attemptRaises (attempt e i))
            \<longrightarrow> (\<exists>err. Warned err \<in> set new))"
  using assms by (rule fanout_scheduling)

theorem retry_pass_scheduled_witness:
  "reachesFanOut ledger
     (envE (Some [subscriptionS]) True \<lparr>sendNotification = Threw (Error ''timeout''), retryNotification = None\<rparr>)
     (transferT ''prepared'') worldW [subscriptionS]
   \<and> deliveryFailed (Threw (Error ''timeout''))
   \<and> fst (queueNotifications ledger
        (envE (Some [subscriptionS]) True \<lparr>sendNotification = Threw (Error ''timeout''), retryNotification = None\<rparr>)
        (transferT ''prepared'') worldW) = None
   \<and> ProcessingScheduled \<in> set (trace (snd (queueNotifications ledger
        (envE (Some [subscriptionS]) True \<lparr>sendNotification = Threw (Error ''timeout''), retryNotification = None\<rparr>)
        (transferT ''prepared'') worldW)))"
proof -
  let ?io = "\<lparr>sendNotification = Threw (Error ''timeout''), retryNotification = None\<rparr>"
  let ?e = "envE (Some [subscriptionS]) True ?io"
  let ?t = "transferT ''prepared''"
  have h: "reachesFanOut ledger ?e ?t worldW [subscriptionS]"
    by (rule scenario_reaches) (simp add: transferT_def)
  have f: "deliveryFailed (Threw (Error ''timeout''))" by (simp add: deliveryFailed_def)
  have en: "isEnabled ?e \<and> (\<forall>i < length [subscriptionS]. \<not> attemptRaises (attempt ?e i))"
    by (simp add: envE_def attemptRaises_def)
  from retry_pass_scheduled[OF h] en
  obtain w' new where "queueNotifications ledger ?e ?t worldW = (None, w')"
    "trace w' = trace worldW @ new" "ProcessingScheduled \<in> set new" by blast
  with h f show ?thesis by (simp add: worldW_def)
qed

theorem retry_pass_counterexample:
  "reachesFanOut ledger
     (envE (Some [subscriptionS]) True
        \<lparr>sendNotification = Responded 500, retryNotification = Some (Error ''retry rejected'')\<rparr>)
     (transferT ''prepared'') worldW [subscriptionS]
   \<and> deliveryFailed (Responded 500)
   \<and> ProcessingScheduled \<notin> set (trace (snd (queueNotifications ledger
        (envE (Some [subscriptionS]) True
           \<lparr>sendNotification = Responded 500, retryNotification = Some (Error ''retry rejected'')\<rparr>)
        (transferT ''prepared'') worldW)))
   \<and> reachesFanOut ledger
     (envE (Some [subscriptionS]) False \<lparr>sendNotification = Responded 500, retryNotification = None\<rparr>)
     (transferT ''prepared'') worldW [subscriptionS]
   \<and> ProcessingScheduled \<notin> set (trace (snd (queueNotifications ledger
        (envE (Some [subscriptionS]) False \<lparr>sendNotification = Responded 500, retryNotification = None\<rparr>)
        (transferT ''prepared'') worldW)))"
proof -
  let ?io1 = "\<lparr>sendNotification = Responded 500, retryNotification = Some (Error ''retry rejected'')\<rparr>"
  let ?io2 = "\<lparr>sendNotification = Responded 500, retryNotification = None\<rparr>"
  let ?e1 = "envE (Some [subscriptionS]) True ?io1"
  let ?e2 = "envE (Some [subscriptionS]) False ?io2"
  let ?t = "transferT ''prepared''"
  have h1: "reachesFanOut ledger ?e1 ?t worldW [subscriptionS]"
    by (rule scenario_reaches) (simp add: transferT_def)
  have h2: "reachesFanOut ledger ?e2 ?t worldW [subscriptionS]"
    by (rule scenario_reaches) (simp add: transferT_def)
  have f: "deliveryFailed (Responded 500)" by (simp add: deliveryFailed_def)
  have r1: "\<not> (isEnabled ?e1 \<and> (\<forall>i < length [subscriptionS]. \<not> attemptRaises (attempt ?e1 i)))"
    by (simp add: envE_def attemptRaises_def deliveryFailed_def)
  have r2: "\<not> (isEnabled ?e2 \<and> (\<forall>i < length [subscriptionS]. \<not> attemptRaises (attempt ?e2 i)))"
    by (simp add: envE_def)
  from fanout_scheduling[OF h1] r1
  obtain w1 new1 where 1: "queueNotifications ledger ?e1 ?t worldW = (None, w1)"
    "trace w1 = trace worldW @ new1" "ProcessingScheduled \<notin> set new1" by blast
  from fanout_scheduling[OF h2] r2
  obtain w2 new2 where 2: "queueNotifications ledger ?e2 ?t worldW = (None, w2)"
    "trace w2 = trace worldW @ new2" "ProcessingScheduled \<notin> set new2" by blast
  from 1 2 h1 h2 f show ?thesis by (simp add: worldW_def)
qed

text \<open>
  Claim C9, as amended. When the subscription lookup yields a falsy value (no
  array at all), \<open>queueNotifications\<close> ends at once and nothing changes: no record
  is created, no event emitted, no delivery attempted, no processing pass
  requested. When the lookup yields an empty array, no record is created and no
  delivery is attempted either, but the local events of all affected accounts
  are still emitted and, if the scheduler is enabled, the processing pass is
  requested.
\<close>

theorem no_subscriptions:
  "(getAffectedSubscriptions e (affectedAccountUris d t) = None
      \<longrightarrow> queueNotifications d e t w = (None, w))
   \<and> (getAffectedSubscriptions e (affectedAccountUris d t) = Some []
      \<longrightarrow> queueNotifications d e t w =
           (None, w\<lparr>trace := trace w
                      @ map (\<lambda>acct. Emitted (''transfer-'' @ acct)
                                      (localBody d t (fetchFulfillment e t)))
                          (affectedAccounts t)
                      @ (if isEnabled e then [ProcessingScheduled] else [])\<rparr>))"
  by (simp add: queue_no_result queue_empty_array)

theorem no_subscriptions_witness:
  "getAffectedSubscriptions (envE None True \<lparr>sendNotification = Responded 200, retryNotification = None\<rparr>)
     (affectedAccountUris ledger (transferT ''prepared'')) = None
   \<and> queueNotifications ledger
       (envE None True \<lparr>sendNotification = Responded 200, retryNotification = None\<rparr>)
       (transferT ''prepared'') worldW = (None, worldW)
   \<and> getAffectedSubscriptions (envE (Some []) False \<lparr>sendNotification = Responded 200, retryNotification = None\<rparr>)
     (affectedAccountUris ledger (transferT ''prepared'')) = Some []
   \<and> notifications (snd (queueNotifications ledger
       (envE (Some []) False \<lparr>sendNotification = Responded 200, retryNotification = None\<rparr>)
       (transferT ''prepared'') worldW)) = [notificationN]
   \<and> trace (snd (queueNotifications ledger
       (envE (Some []) False \<lparr>sendNotification = Responded 200, retryNotification = None\<rparr>)
       (transferT ''prepared'') worldW))
     = [Emitted ''transfer-bob'' \<lparr>resource = ''t1'', related_resources = None\<rparr>,
        Emitted ''transfer-alice'' \<lparr>resource = ''t1'', related_resources = None\<rparr>,
        Emitted ''transfer-*'' \<lparr>resource = ''t1'', related_resources = None\<rparr>]"
proof -
  let ?io = "\<lparr>sendNotification = Responded 200, retryNotification = None\<rparr>"
  let ?t = "transferT ''prepared''"
  have h1: "getAffectedSubscriptions (envE None True ?io) (affectedAccountUris ledger ?t) = None"
    by (simp add: envE_def)
  have h2: "getAffectedSubscriptions (envE (Some []) False ?io) (affectedAccountUris ledger ?t) = Some []"
    by (simp add: envE_def)
  have b: "localBody ledger ?t (fetchFulfillment (envE (Some []) False ?io) ?t)
      = \<lparr>resource = ''t1'', related_resources = None\<rparr>"
    by (simp add: localBody_def fetchFulfillment_def isTransferFinalized_def transferT_def
        TRANSFER_STATE_EXECUTED_def TRANSFER_STATE_REJECTED_def ledger_def envE_def)
  have d: "\<not> isEnabled (envE (Some []) False ?io)" by (simp add: envE_def)
  from no_subscriptions[of "envE None True ?io" ledger ?t worldW] h1
  have 1: "queueNotifications ledger (envE None True ?io) ?t worldW = (None, worldW)" by blast
  from no_subscriptions[of "envE (Some []) False ?io" ledger ?t worldW] h2
  have 2: "queueNotifications ledger (envE (Some []) False ?io) ?t worldW =
           (None, worldW\<lparr>trace := trace worldW
                      @ map (\<lambda>acct. Emitted (''transfer-'' @ acct)
                                      (localBody ledger ?t (fetchFulfillment (envE (Some []) False ?io) ?t)))
                          (affectedAccounts ?t)
                      @ (if isEnabled (envE (Some []) False ?io) then [ProcessingScheduled] else [])\<rparr>)"
    by blast
  have 3: "trace (snd (queueNotifications ledger (envE (Some []) False ?io) ?t worldW))
     = [Emitted ''transfer-bob'' \<lparr>resource = ''t1'', related_resources = None\<rparr>,
        Emitted ''transfer-alice'' \<lparr>resource = ''t1'', related_resources = None\<rparr>,
        Emitted ''transfer-*'' \<lparr>resource = ''t1'', related_resources = None\<rparr>]"
    unfolding 2 b by (simp add: d worldW_def affectedAccounts_def transferT_def)
  have 4: "notifications (snd (queueNotifications ledger (envE (Some []) False ?io) ?t worldW))
      = [notificationN]"
    unfolding 2 by (simp add: worldW_def)
  from h1 h2 1 3 4 show ?thesis by blast
qed

theorem no_subscriptions_counterexample:
  "getAffectedSubscriptions (envE (Some []) True \<lparr>sendNotification = Responded 200, retryNotification = None\<rparr>)
     (affectedAccountUris ledger (transferT ''prepared'')) = Some []
   \<and> trace (snd (queueNotifications ledger
       (envE (Some []) True \<lparr>sendNotification = Responded 200, retryNotification = None\<rparr>)
       (transferT ''prepared'') worldW))
     = [Emitted ''transfer-bob'' \<lparr>resource = ''t1'', related_resources = None\<rparr>,
        Emitted ''transfer-alice'' \<lparr>resource = ''t1'', related_resources = None\<rparr>,
        Emitted ''transfer-*'' \<lparr>resource = ''t1'', related_resources = None\<rparr>,
        ProcessingScheduled]
   \<and> trace worldW = []"
proof -
  let ?io = "\<lparr>sendNotification = Responded 200, retryNotification = None\<rparr>"
  let ?e = "envE (Some []) True ?io"
  let ?t = "transferT ''prepared''"
  have h: "getAffectedSubscriptions ?e (affectedAccountUris ledger ?t) = Some []"
    by (simp add: envE_def)
  have b: "localBody ledger ?t (fetchFulfillment ?e ?t)
      = \<lparr>resource = ''t1'', related_resources = None\<rparr>"
    by (simp add: localBody_def fetchFulfillment_def isTransferFinalized_def transferT_def
        TRANSFER_STATE_EXECUTED_def TRANSFER_STATE_REJECTED_def ledger_def envE_def)
  have en: "isEnabled ?e" by (simp add: envE_def)
  have "trace (snd (queueNotifications ledger ?e ?t worldW))
     = [Emitted ''transfer-bob'' \<lparr>resource = ''t1'', related_resources = None\<rparr>,
        Emitted ''transfer-alice'' \<lparr>resource = ''t1'', related_resources = None\<rparr>,
        Emitted ''transfer-*'' \<lparr>resource = ''t1'', related_resources = None\<rparr>,
        ProcessingScheduled]"
    unfolding queue_empty_array[OF h] b by (simp add: en worldW_def affectedAccounts_def transferT_def)
  with h show ?thesis by (simp add: worldW_def)
qed

section \<open>Payload construction\<close>

lemma states_differ: "TRANSFER_STATE_EXECUTED \<noteq> TRANSFER_STATE_REJECTED"
  by (simp add: TRANSFER_STATE_EXECUTED_def TRANSFER_STATE_REJECTED_def)

lemma notificationBody_related:
  "related_resources (notificationBody d n t s f) =
     (case f of
        None \<Rightarrow> None
      | Some x \<Rightarrow>
          if state t = TRANSFER_STATE_EXECUTED then
            Some \<lparr>execution_condition_fulfillment = Some (convertToExternalFulfillment d x),
                  cancellation_condition_fulfillment = None\<rparr>
          else if state t = TRANSFER_STATE_REJECTED then
            Some \<lparr>execution_condition_fulfillment = None,
                  cancellation_condition_fulfillment = Some (convertToExternalFulfillment d x)\<rparr>
          else None)"
  by (simp add: notificationBody_def Let_def split: option.splits)

lemma localBody_related:
  "related_resources (localBody d t (fetchFulfillment e t)) =
     (case getFulfillment e (id_t t) of
        None \<Rightarrow> None
      | Some x \<Rightarrow>
          if state t = TRANSFER_STATE_EXECUTED then
            Some \<lparr>execution_condition_fulfillment = Some (convertToExternalFulfillment d x),
                  cancellation_condition_fulfillment = None\<rparr>
          else if state t = TRANSFER_STATE_REJECTED then
            Some \<lparr>execution_condition_fulfillment = None,
                  cancellation_condition_fulfillment = Some (convertToExternalFulfillment d x)\<rparr>
          else None)"
  by (simp add: localBody_def fetchFulfillment_def isTransferFinalized_def Let_def
      split: option.splits)

text \<open>
  Claim C6. The body built for a delivery carries
  \<open>related_resources.execution_condition_fulfillment\<close>, the converted
  fulfillment, when a fulfillment is present and the transfer is executed; it
  carries \<open>related_resources.cancellation_condition_fulfillment\<close> when a
  fulfillment is present and the transfer is rejected; in every other case (no
  fulfillment, or any other state) it has no \<open>related_resources\<close> key. Attaching
  a cached signature does not change this. The same holds of the body of the
  local events, where the fulfillment is the one the lookup finds for the
  transfer.
\<close>

theorem fulfillment_attachment:
  "(f = Some x \<and> state t = TRANSFER_STATE_EXECUTED
      \<longrightarrow> related_resources (notificationBody d n t s f)
            = Some \<lparr>execution_condition_fulfillment = Some (convertToExternalFulfillment d x),
                    cancellation_condition_fulfillment = None\<rparr>)
   \<and> (f = Some x \<and> state t = TRANSFER_STATE_REJECTED
      \<longrightarrow> related_resources (notificationBody d n t s f)
            = Some \<lparr>execution_condition_fulfillment = None,
                    cancellation_condition_fulfillment = Some (convertToExternalFulfillment d x)\<rparr>)
   \<and> (f = None \<or> (state t \<noteq> TRANSFER_STATE_EXECUTED \<and> state t \<noteq> TRANSFER_STATE_REJECTED)
      \<longrightarrow> related_resources (notificationBody d n t s f) = None)
   \<and> (truthy (signatureCache w (str (n ''id'')))
      \<longrightarrow> related_resources (signedPayload d n t s f w)
            = related_resources (notificationBody d n t s f))
   \<and> (getFulfillment e (id_t t) = Some x \<and> state t = TRANSFER_STATE_EXECUTED
      \<longrightarrow> related_resources (localBody d t (fetchFulfillment e t))
            = Some \<lparr>execution_condition_fulfillment = Some (convertToExternalFulfillment d x),
                    cancellation_condition_fulfillment = None\<rparr>)
   \<and> (getFulfillment e (id_t t) = Some x \<and> state t = TRANSFER_STATE_REJECTED
      \<longrightarrow> related_resources (localBody d t (fetchFulfillment e t))
            = Some \<lparr>execution_condition_fulfillment = None,
                    cancellation_condition_fulfillment = Some (convertToExternalFulfillment d x)\<rparr>)
   \<and> (getFulfillment e (id_t t) = None
        \<or> (state t \<noteq> TRANSFER_STATE_EXECUTED \<and> state t \<noteq> TRANSFER_STATE_REJECTED)
      \<longrightarrow> related_resources (localBody d t (fetchFulfillment e t)) = None)"
proof (intro conjI impI)
  assume "truthy (signatureCache w (str (n ''id'')))"
  then show "related_resources (signedPayload d n t s f w)
            = related_resources (notificationBody d n t s f)"
    by (simp add: signedPayload_def signNotification_cached)
qed (auto simp: notificationBody_related localBody_related states_differ states_differ[symmetric]
      split: option.splits)

theorem fulfillment_attachment_witness:
  "related_resources (notificationBody ledger notificationN (transferT ''executed'') subscriptionS (Some ''f2''))
     = Some \<lparr>execution_condition_fulfillment = Some ''ext-f2'', cancellation_condition_fulfillment = None\<rparr>
   \<and> related_resources (notificationBody ledger notificationN (transferT ''rejected'') subscriptionS (Some ''f2''))
     = Some \<lparr>execution_condition_fulfillment = None, cancellation_condition_fulfillment = Some ''ext-f2''\<rparr>
   \<and> related_resources (notificationBody ledger notificationN (transferT ''prepared'') subscriptionS (Some ''f2''))
     = None
   \<and> related_resources (notificationBody ledger notificationN (transferT ''executed'') subscriptionS None)
     = None
   \<and> related_resources (signedPayload ledger notificationN (transferT ''executed'') subscriptionS (Some ''f2'')
        (worldW\<lparr>signatureCache := [''n1'' \<mapsto> ''cached'']\<rparr>))
     = Some \<lparr>execution_condition_fulfillment = Some ''ext-f2'', cancellation_condition_fulfillment = None\<rparr>
   \<and> related_resources (localBody ledger (transferT ''executed'')
        (fetchFulfillment ((envE None True \<lparr>sendNotification = Responded 200, retryNotification = None\<rparr>)
                             \<lparr>getFulfillment := (\<lambda>i. if i = ''t1'' then Some ''f2'' else None)\<rparr>)
           (transferT ''executed'')))
     = Some \<lparr>execution_condition_fulfillment = Some ''ext-f2'', cancellation_condition_fulfillment = None\<rparr>
   \<and> related_resources (localBody ledger (transferT ''rejected'')
        (fetchFulfillment ((envE None True \<lparr>sendNotification = Responded 200, retryNotification = None\<rparr>)
                             \<lparr>getFulfillment := (\<lambda>i. if i = ''t1'' then Some ''f2'' else None)\<rparr>)
           (transferT ''rejected'')))
     = Some \<lparr>execution_condition_fulfillment = None, cancellation_condition_fulfillment = Some ''ext-f2''\<rparr>
   \<and> related_resources (localBody ledger (transferT ''prepared'')
        (fetchFulfillment ((envE None True \<lparr>sendNotification = Responded 200, retryNotification = None\<rparr>)
                             \<lparr>getFulfillment := (\<lambda>i. if i = ''t1'' then Some ''f2'' else None)\<rparr>)
           (transferT ''prepared'')))
     = None"
proof -
  let ?e = "(envE None True \<lparr>sendNotification = Responded 200, retryNotification = None\<rparr>)
              \<lparr>getFulfillment := (\<lambda>i. if i = ''t1'' then Some ''f2'' else None)\<rparr>"
  let ?w = "worldW\<lparr>signatureCache := [''n1'' \<mapsto> ''cached'']\<rparr>"
  have st: "state (transferT ''executed'') = TRANSFER_STATE_EXECUTED"
    "state (transferT ''rejected'') = TRANSFER_STATE_REJECTED"
    "state (transferT ''prepared'') \<noteq> TRANSFER_STATE_EXECUTED
       \<and> state (transferT ''prepared'') \<noteq> TRANSFER_STATE_REJECTED"
    by (simp_all add: transferT_def TRANSFER_STATE_EXECUTED_def TRANSFER_STATE_REJECTED_def)
  have g: "getFulfillment ?e (id_t (transferT z)) = Some ''f2''" for z
    by (simp add: envE_def transferT_def)
  have c: "truthy (signatureCache ?w (str (notificationN ''id'')))"
    by (simp add: notificationN_id truthy_def)
  have x: "convertToExternalFulfillment ledger ''f2'' = ''ext-f2''" by (simp add: ledger_def)
  note a = fulfillment_attachment[of "Some ''f2''" "''f2''" "transferT ''executed''" ledger
      notificationN subscriptionS ?w ?e]
  note b = fulfillment_attachment[of "Some ''f2''" "''f2''" "transferT ''rejected''" ledger
      notificationN subscriptionS ?w ?e]
  note p = fulfillment_attachment[of "Some ''f2''" "''f2''" "transferT ''prepared''" ledger
      notificationN subscriptionS ?w ?e]
  note q = fulfillment_attachment[of None "''f2''" "transferT ''executed''" ledger
      notificationN subscriptionS ?w ?e]
  from a st(1) c g x have 1:
    "related_resources (notificationBody ledger notificationN (transferT ''executed'') subscriptionS (Some ''f2''))
     = Some \<lparr>execution_condition_fulfillment = Some ''ext-f2'', cancellation_condition_fulfillment = None\<rparr>"
    "related_resources (signedPayload ledger notificationN (transferT ''executed'') subscriptionS (Some ''f2'') ?w)
     = Some \<lparr>execution_condition_fulfillment = Some ''ext-f2'', cancellation_condition_fulfillment = None\<rparr>"
    "related_resources (localBody ledger (transferT ''executed'') (fetchFulfillment ?e (transferT ''executed'')))
     = Some \<lparr>execution_condition_fulfillment = Some ''ext-f2'', cancellation_condition_fulfillment = None\<rparr>"
    by simp_all
  from b st(2) g x have 2:
    "related_resources (notificationBody ledger notificationN (transferT ''rejected'') subscriptionS (Some ''f2''))
     = Some \<lparr>execution_condition_fulfillment = None, cancellation_condition_fulfillment = Some ''ext-f2''\<rparr>"
    "related_resources (localBody ledger (transferT ''rejected'') (fetchFulfillment ?e (transferT ''rejected'')))
     = Some \<lparr>execution_condition_fulfillment = None, cancellation_condition_fulfillment = Some ''ext-f2''\<rparr>"
    by simp_all
  from p st(3) have 3:
    "related_resources (notificationBody ledger notificationN (transferT ''prepared'') subscriptionS (Some ''f2'')) = None"
    "related_resources (localBody ledger (transferT ''prepared'') (fetchFulfillment ?e (transferT ''prepared''))) = None"
    by blast+
  from q have 4:
    "related_resources (notificationBody ledger notificationN (transferT ''executed'') subscriptionS None) = None"
    by blast
  from 1 2 3 4 show ?thesis by blast
qed

end
